theory Spec2Isabelle
  imports Complex_Main "HOL-Library.List_Lexorder" "HOL-Library.Char_ord"
begin

section \<open>Hospital data cleaning and imputation: a shallow embedding\<close>

text \<open>
  The two scripts \<^verbatim>\<open>clean_hospital_data.py\<close> and
  \<^verbatim>\<open>ml_missing_value_imputation.py\<close> transform a pandas DataFrame held in
  \<^verbatim>\<open>self.df\<close>. The model keeps the DataFrame column-oriented, as pandas does:
  an ordered association list from column names to typed columns. A cell of a column is an
  \<open>option\<close>: \<open>None\<close> is pandas' missing value (NaN, NaT).

  Modelling conventions:
  \<^item> text is ASCII: letters are \<open>a-z\<close> and \<open>A-Z\<close>, white space is what
    \<^verbatim>\<open>str.isspace\<close> accepts below code point 128;
  \<^item> a numeric column (dtype \<^verbatim>\<open>float64\<close> or \<^verbatim>\<open>int64\<close>) holds finite
    numbers, modelled as \<open>real\<close>; an \<^verbatim>\<open>int64\<close> column is a numeric column
    with every cell present;
  \<^item> a \<^verbatim>\<open>datetime64[ns]\<close> cell is the number of nanoseconds since the epoch, a signed
    64-bit integer; the smallest 64-bit integer is pandas' marker of a missing time, and the
    difference of two timestamps is computed with an overflow check;
  \<^item> an uncaught Python exception is the \<open>Inl\<close> branch of a sum type;
  \<^item> console output is not modelled, except the verdict lines of the date repair.
\<close>

subsection \<open>Python string primitives (ASCII)\<close>

definition ascii_upper :: string where
  "ascii_upper = ''ABCDEFGHIJKLMNOPQRSTUVWXYZ''"

definition ascii_lower :: string where
  "ascii_lower = ''abcdefghijklmnopqrstuvwxyz''"

definition ascii_digits :: string where
  "ascii_digits = ''0123456789''"

definition is_upper :: "char \<Rightarrow> bool" where
  "is_upper c = (c \<in> set ascii_upper)"

definition is_lower :: "char \<Rightarrow> bool" where
  "is_lower c = (c \<in> set ascii_lower)"

definition to_lower :: "char \<Rightarrow> char" where
  "to_lower c = (case map_of (zip ascii_upper ascii_lower) c of Some d \<Rightarrow> d | None \<Rightarrow> c)"

definition to_upper :: "char \<Rightarrow> char" where
  "to_upper c = (case map_of (zip ascii_lower ascii_upper) c of Some d \<Rightarrow> d | None \<Rightarrow> c)"

text \<open>\<^verbatim>\<open>str.lower()\<close>.\<close>

definition lower :: "string \<Rightarrow> string" where
  "lower s = map to_lower s"

text \<open>\<^verbatim>\<open>str.isspace()\<close> on one character: tab, line feed, vertical tab, form feed,
  carriage return, the four separators 0x1C-0x1F and the space.\<close>

definition is_space :: "char \<Rightarrow> bool" where
  "is_space c = (c \<in> set [CHR 0x09, CHR 0x0A, CHR 0x0B, CHR 0x0C, CHR 0x0D,
                            CHR 0x1C, CHR 0x1D, CHR 0x1E, CHR 0x1F, CHR 0x20])"

text \<open>\<^verbatim>\<open>str.strip()\<close>, \<^verbatim>\<open>str.rstrip(',')\<close>.\<close>

definition lstrip :: "string \<Rightarrow> string" where
  "lstrip s = dropWhile is_space s"

definition rstrip :: "string \<Rightarrow> string" where
  "rstrip s = rev (dropWhile is_space (rev s))"

definition strip :: "string \<Rightarrow> string" where
  "strip s = rstrip (lstrip s)"

definition rstrip_char :: "char \<Rightarrow> string \<Rightarrow> string" where
  "rstrip_char c s = rev (dropWhile (\<lambda>d. d = c) (rev s))"

text \<open>\<^verbatim>\<open>re.sub(r'\s+', ' ', s)\<close>: every maximal run of white space becomes one space.
  The flag says whether the previous character belonged to a run already replaced.\<close>

fun collapse_from :: "bool \<Rightarrow> string \<Rightarrow> string" where
  "collapse_from in_run [] = []"
| "collapse_from in_run (c # cs) =
     (if is_space c
      then (if in_run then collapse_from True cs else CHR '' '' # collapse_from True cs)
      else c # collapse_from False cs)"

definition collapse_spaces :: "string \<Rightarrow> string" where
  "collapse_spaces s = collapse_from False s"

text \<open>\<^verbatim>\<open>str.split()\<close> with no argument: split on runs of white space, no empty parts.
  The accumulator holds the characters of the current part, reversed.\<close>

fun split_ws_acc :: "string \<Rightarrow> string \<Rightarrow> string list" where
  "split_ws_acc acc [] = (if acc = [] then [] else [rev acc])"
| "split_ws_acc acc (c # cs) =
     (if is_space c then (if acc = [] then split_ws_acc [] cs else rev acc # split_ws_acc [] cs)
      else split_ws_acc (c # acc) cs)"

definition split_ws :: "string \<Rightarrow> string list" where
  "split_ws s = split_ws_acc [] s"

text \<open>\<^verbatim>\<open>str.split(sep)\<close> for a one-character separator: empty parts are kept.\<close>

fun split_on_acc :: "char \<Rightarrow> string \<Rightarrow> string \<Rightarrow> string list" where
  "split_on_acc sep acc [] = [rev acc]"
| "split_on_acc sep acc (c # cs) =
     (if c = sep then rev acc # split_on_acc sep [] cs else split_on_acc sep (c # acc) cs)"

definition split_on :: "char \<Rightarrow> string \<Rightarrow> string list" where
  "split_on sep s = split_on_acc sep [] s"

text \<open>\<^verbatim>\<open>sep.join(parts)\<close>.\<close>

fun join :: "string \<Rightarrow> string list \<Rightarrow> string" where
  "join sep [] = []"
| "join sep [p] = p"
| "join sep (p # q # ps) = p @ sep @ join sep (q # ps)"

text \<open>\<^verbatim>\<open>str.capitalize()\<close>: the first character upper-cased, every other character
  lower-cased.\<close>

definition capitalize :: "string \<Rightarrow> string" where
  "capitalize s = (case s of [] \<Rightarrow> [] | c # cs \<Rightarrow> to_upper c # map to_lower cs)"

text \<open>\<^verbatim>\<open>str.title()\<close>: a letter that follows a non-letter is upper-cased, a letter
  that follows a letter is lower-cased. The flag says whether the previous character was a
  letter.\<close>

fun title_from :: "bool \<Rightarrow> string \<Rightarrow> string" where
  "title_from prev [] = []"
| "title_from prev (c # cs) =
     (if is_upper c \<or> is_lower c
      then (if prev then to_lower c else to_upper c) # title_from True cs
      else c # title_from False cs)"

definition title :: "string \<Rightarrow> string" where
  "title s = title_from False s"

subsection \<open>Name normalisation (\<^verbatim>\<open>clean_names\<close>, \<^verbatim>\<open>fix_name_formatting\<close>)\<close>

text \<open>The alternatives of \<^verbatim>\<open>title_pattern = r'^(mr\.|mrs\.|dr\.|ms\.)\s*'\<close>, in the
  order the regular expression tries them.\<close>

definition title_alternatives :: "string list" where
  "title_alternatives = [''mr.'', ''mrs.'', ''dr.'', ''ms.'']"

text \<open>\<^verbatim>\<open>re.match(title_pattern, s)\<close> on an already lower-cased string: group 1 of the
  match, if any.\<close>

definition title_match :: "string \<Rightarrow> string option" where
  "title_match s = find (\<lambda>t. take (length t) s = t) title_alternatives"

text \<open>\<^verbatim>\<open>re.sub(title_pattern, '', name, flags=re.IGNORECASE)\<close>: the pattern is anchored at
  the start, so at most the leading honorific and the white space after it are removed.\<close>

definition strip_title :: "string \<Rightarrow> string" where
  "strip_title name =
     (case title_match (lower name) of
        None \<Rightarrow> name
      | Some t \<Rightarrow> dropWhile is_space (drop (length t) name))"

text \<open>The body of the loop over \<^verbatim>\<open>name_parts\<close>.\<close>

definition clean_part :: "string \<Rightarrow> string" where
  "clean_part part =
     (if CHR ''-'' \<in> set part
      then join ''-'' (map capitalize (split_on (CHR ''-'') part))
      else capitalize part)"

text \<open>\<^verbatim>\<open>fix_name_formatting\<close> on a present cell of the (object) column.\<close>

definition fix_name_text :: "string \<Rightarrow> string" where
  "fix_name_text raw =
     (let name = collapse_spaces (strip raw);
          m = title_match (lower name);
          ttl = (case m of None \<Rightarrow> [] | Some t \<Rightarrow> title t @ '' '');
          name' = (case m of None \<Rightarrow> name | Some t \<Rightarrow> strip_title name);
          name_parts = split_ws name'
      in ttl @ join '' '' (map clean_part name_parts))"

text \<open>\<^verbatim>\<open>fix_name_formatting\<close>: a missing cell is returned as it is.\<close>

definition fix_name_formatting :: "string option \<Rightarrow> string option" where
  "fix_name_formatting name = (case name of None \<Rightarrow> None | Some s \<Rightarrow> Some (fix_name_text s))"

subsection \<open>The DataFrame\<close>

text \<open>A column is a pandas Series with its dtype: \<^verbatim>\<open>object\<close> (text),
  \<^verbatim>\<open>float64\<close>/\<^verbatim>\<open>int64\<close> (numbers) or \<^verbatim>\<open>datetime64[ns]\<close>.\<close>

datatype column =
    ObjectCol "string option list"
  | FloatCol "real option list"
  | DatetimeCol "int option list"

datatype dtype = Object | Float64 | Datetime64

type_synonym dataframe = "(string \<times> column) list"

text \<open>The exceptions the scripts can raise; none of them is caught. \<open>DtypeError\<close>
  stands for the \<^verbatim>\<open>TypeError\<close> or \<^verbatim>\<open>AttributeError\<close> that pandas raises when an
  operation does not fit the dtype of a column.\<close>

datatype py_error = KeyError string | DtypeError | ValueError | OverflowError

text \<open>Library functions outside the repository whose results the model does not fix:
  how \<^verbatim>\<open>pd.to_datetime(..., errors='coerce')\<close> reads a text (given the column it
  stands in) or a number, and how \<^verbatim>\<open>str()\<close> prints a number or a timestamp.\<close>

record pandas_env =
  parse_ts :: "string option list \<Rightarrow> string \<Rightarrow> int option"
  num_ts :: "real \<Rightarrow> int option"
  str_num :: "real \<Rightarrow> string"
  str_ts :: "int \<Rightarrow> string"

definition dtype_of :: "column \<Rightarrow> dtype" where
  "dtype_of c = (case c of ObjectCol _ \<Rightarrow> Object | FloatCol _ \<Rightarrow> Float64
                 | DatetimeCol _ \<Rightarrow> Datetime64)"

definition col_len :: "column \<Rightarrow> nat" where
  "col_len c = (case c of ObjectCol xs \<Rightarrow> length xs | FloatCol xs \<Rightarrow> length xs
                | DatetimeCol xs \<Rightarrow> length xs)"

text \<open>\<^verbatim>\<open>series.isna()\<close> and \<^verbatim>\<open>series.isnull().sum()\<close>.\<close>

definition isna :: "column \<Rightarrow> bool list" where
  "isna c = (case c of ObjectCol xs \<Rightarrow> map (\<lambda>x. x = None) xs
             | FloatCol xs \<Rightarrow> map (\<lambda>x. x = None) xs
             | DatetimeCol xs \<Rightarrow> map (\<lambda>x. x = None) xs)"

definition count_true :: "bool list \<Rightarrow> nat" where
  "count_true bs = length (filter (\<lambda>b. b) bs)"

definition missing_count :: "column \<Rightarrow> nat" where
  "missing_count c = count_true (isna c)"

text \<open>\<^verbatim>\<open>df.columns\<close>, \<^verbatim>\<open>len(df)\<close>, \<^verbatim>\<open>df[name]\<close> (a missing name raises
  \<^verbatim>\<open>KeyError\<close>) and \<^verbatim>\<open>df[name] = column\<close> (an existing column is replaced in place,
  a new one is appended).\<close>

definition columns :: "dataframe \<Rightarrow> string list" where
  "columns d = map fst d"

definition nrows :: "dataframe \<Rightarrow> nat" where
  "nrows d = (case d of [] \<Rightarrow> 0 | (_, c) # _ \<Rightarrow> col_len c)"

definition get_col :: "dataframe \<Rightarrow> string \<Rightarrow> py_error + column" where
  "get_col d name = (case map_of d name of None \<Rightarrow> Inl (KeyError name) | Some c \<Rightarrow> Inr c)"

fun set_col :: "dataframe \<Rightarrow> string \<Rightarrow> column \<Rightarrow> dataframe" where
  "set_col [] name c = [(name, c)]"
| "set_col ((n, c0) # d) name c =
     (if n = name then (n, c) # d else (n, c0) # set_col d name c)"

text \<open>Every column has as many cells as the frame has rows: pandas guarantees it.\<close>

definition wf_df :: "dataframe \<Rightarrow> bool" where
  "wf_df d = (distinct (columns d) \<and> list_all (\<lambda>(_, c). col_len c = nrows d) d)"

text \<open>Sequencing of steps: the first exception ends the run.\<close>

definition bind_result :: "'e + 'a \<Rightarrow> ('a \<Rightarrow> 'e + 'b) \<Rightarrow> 'e + 'b" where
  "bind_result m f = (case m of Inl e \<Rightarrow> Inl e | Inr x \<Rightarrow> f x)"

subsection \<open>The cleaner (\<^verbatim>\<open>HospitalDataCleaner\<close>)\<close>

text \<open>The entries appended to \<^verbatim>\<open>cleaning_report['issues_fixed']\<close>: the source formats
  each as a sentence around the count kept here.\<close>

datatype issue =
    RemovedDuplicates nat
  | FixedNames nat
  | FixedLiteralNan nat
  | ConvertedInvalidGender nat
  | MarkedInvalidBlood nat
  | ConvertedInvalidDates nat string
  | FixedDateSequences nat
  | CleanedHospitalNames nat
  | FixedAge nat
  | FixedBilling nat
  | FixedRoom nat
  | StandardizedCategorical
  | FilledAges nat
  | AppliedMissingPolicies

record frame =
  df :: dataframe

record cleaner = frame +
  original_rows :: nat
  issues_fixed :: "issue list"

text \<open>\<^verbatim>\<open>load_data\<close>, after \<^verbatim>\<open>pd.read_csv\<close> has produced the frame.\<close>

definition load_data :: "dataframe \<Rightarrow> cleaner" where
  "load_data d = \<lparr>df = d, original_rows = nrows d, issues_fixed = []\<rparr>"

definition add_issue :: "issue \<Rightarrow> cleaner \<Rightarrow> cleaner" where
  "add_issue i st = st\<lparr>issues_fixed := issues_fixed st @ [i]\<rparr>"

subsubsection \<open>\<^verbatim>\<open>remove_duplicates\<close>\<close>

text \<open>A cell of any column, to compare whole rows.\<close>

datatype cell = NaN | Str string | Num real | Ts int

definition col_cells :: "column \<Rightarrow> cell list" where
  "col_cells c =
     (case c of
        ObjectCol xs \<Rightarrow> map (\<lambda>x. case x of None \<Rightarrow> NaN | Some s \<Rightarrow> Str s) xs
      | FloatCol xs \<Rightarrow> map (\<lambda>x. case x of None \<Rightarrow> NaN | Some v \<Rightarrow> Num v) xs
      | DatetimeCol xs \<Rightarrow> map (\<lambda>x. case x of None \<Rightarrow> NaN | Some t \<Rightarrow> Ts t) xs)"

definition df_rows :: "dataframe \<Rightarrow> cell list list" where
  "df_rows d = map (\<lambda>i. map (\<lambda>(_, c). col_cells c ! i) d) [0..<nrows d]"

text \<open>\<^verbatim>\<open>df.duplicated()\<close>: a row is marked when an equal row came earlier (missing cells
  compare equal).\<close>

fun duplicated_from :: "cell list list \<Rightarrow> cell list list \<Rightarrow> bool list" where
  "duplicated_from seen [] = []"
| "duplicated_from seen (r # rs) = (r \<in> set seen) # duplicated_from (r # seen) rs"

definition duplicated :: "dataframe \<Rightarrow> bool list" where
  "duplicated d = duplicated_from [] (df_rows d)"

text \<open>Keep the rows whose mask entry is true.\<close>

definition select :: "bool list \<Rightarrow> 'a list \<Rightarrow> 'a list" where
  "select msk xs = map snd (filter fst (zip msk xs))"

definition select_col :: "bool list \<Rightarrow> column \<Rightarrow> column" where
  "select_col msk c =
     (case c of ObjectCol xs \<Rightarrow> ObjectCol (select msk xs)
      | FloatCol xs \<Rightarrow> FloatCol (select msk xs)
      | DatetimeCol xs \<Rightarrow> DatetimeCol (select msk xs))"

definition drop_duplicates :: "dataframe \<Rightarrow> dataframe" where
  "drop_duplicates d = map (\<lambda>(n, c). (n, select_col (map Not (duplicated d)) c)) d"

definition remove_duplicates :: "cleaner \<Rightarrow> py_error + cleaner" where
  "remove_duplicates st =
     (let duplicate_count = count_true (duplicated (df st))
      in if duplicate_count > 0
         then Inr (add_issue (RemovedDuplicates duplicate_count)
                     (st\<lparr>df := drop_duplicates (df st)\<rparr>))
         else Inr st)"

subsubsection \<open>\<^verbatim>\<open>clean_names\<close>\<close>

text \<open>\<^verbatim>\<open>re.search(r'[a-z][A-Z]|[A-Z][a-z][A-Z]', s)\<close>.\<close>

fun irregular :: "string \<Rightarrow> bool" where
  "irregular (a # b # c # cs) =
     ((is_lower a \<and> is_upper b) \<or> (is_upper a \<and> is_lower b \<and> is_upper c)
      \<or> irregular (b # c # cs))"
| "irregular [a, b] = (is_lower a \<and> is_upper b)"
| "irregular _ = False"

text \<open>The \<^verbatim>\<open>.str\<close> accessor exists on object columns only.\<close>

definition str_accessor :: "column \<Rightarrow> py_error + string option list" where
  "str_accessor c = (case c of ObjectCol xs \<Rightarrow> Inr xs | _ \<Rightarrow> Inl DtypeError)"

definition count_where :: "('a \<Rightarrow> bool) \<Rightarrow> 'a option list \<Rightarrow> nat" where
  "count_where P xs = length (filter (\<lambda>x. case x of None \<Rightarrow> False | Some v \<Rightarrow> P v) xs)"

definition clean_names :: "cleaner \<Rightarrow> py_error + cleaner" where
  "clean_names st =
     bind_result (get_col (df st) ''Name'') (\<lambda>c.
     bind_result (str_accessor c) (\<lambda>xs.
       let irregular_names = count_where irregular xs
       in Inr (add_issue (FixedNames irregular_names)
                 (st\<lparr>df := set_col (df st) ''Name'' (ObjectCol (map fix_name_formatting xs))\<rparr>))))"

subsubsection \<open>\<^verbatim>\<open>clean_gender_data\<close>\<close>

text \<open>\<^verbatim>\<open>re.match(r'^[Nn]a[Nn]$', s)\<close>: the middle letter is a lower-case \<open>a\<close>, and
  \<^verbatim>\<open>$\<close> also matches before one final line feed.\<close>

definition literal_nan :: "string \<Rightarrow> bool" where
  "literal_nan s =
     (case s of
        [a, b, c] \<Rightarrow> a \<in> set ''Nn'' \<and> b = CHR ''a'' \<and> c \<in> set ''Nn''
      | [a, b, c, d] \<Rightarrow> a \<in> set ''Nn'' \<and> b = CHR ''a'' \<and> c \<in> set ''Nn'' \<and> d = CHR 0x0A
      | _ \<Rightarrow> False)"

definition valid_genders :: "string list" where
  "valid_genders = [''Male'', ''Female'']"

text \<open>The pre-pass, run when the column's dtype is \<^verbatim>\<open>object\<close>: the mask is
  \<^verbatim>\<open>astype(str).str.match(...) & notna()\<close>, so a missing cell (which prints as
  \<^verbatim>\<open>nan\<close>) is not counted.\<close>

definition literal_nan_mask :: "string option list \<Rightarrow> bool list" where
  "literal_nan_mask xs =
     map (\<lambda>x. literal_nan (case x of None \<Rightarrow> ''nan'' | Some s \<Rightarrow> s) \<and> x \<noteq> None) xs"

text \<open>\<^verbatim>\<open>df.loc[msk, col] = value\<close> on the cells of one column.\<close>

definition assign_where :: "bool list \<Rightarrow> 'a \<Rightarrow> 'a list \<Rightarrow> 'a list" where
  "assign_where msk v xs = map (\<lambda>(m, x). if m then v else x) (zip msk xs)"

definition gender_prepass :: "cleaner \<Rightarrow> column \<Rightarrow> cleaner \<times> column" where
  "gender_prepass st c =
     (case c of
        ObjectCol xs \<Rightarrow>
          (let msk = literal_nan_mask xs; nan_strings = count_true msk
           in if nan_strings > 0
              then (add_issue (FixedLiteralNan nan_strings) st,
                    ObjectCol (assign_where msk None xs))
              else (st, c))
      | _ \<Rightarrow> (st, c))"

text \<open>\<^verbatim>\<open>~isin(valid_genders) & notna()\<close>: a number or a timestamp is never one of the
  accepted texts.\<close>

definition invalid_gender_mask :: "column \<Rightarrow> bool list" where
  "invalid_gender_mask c =
     (case c of
        ObjectCol xs \<Rightarrow> map (\<lambda>x. (case x of None \<Rightarrow> True | Some s \<Rightarrow> s \<notin> set valid_genders)
                                  \<and> x \<noteq> None) xs
      | FloatCol xs \<Rightarrow> map (\<lambda>x. x \<noteq> None) xs
      | DatetimeCol xs \<Rightarrow> map (\<lambda>x. x \<noteq> None) xs)"

definition null_where :: "bool list \<Rightarrow> column \<Rightarrow> column" where
  "null_where msk c =
     (case c of ObjectCol xs \<Rightarrow> ObjectCol (assign_where msk None xs)
      | FloatCol xs \<Rightarrow> FloatCol (assign_where msk None xs)
      | DatetimeCol xs \<Rightarrow> DatetimeCol (assign_where msk None xs))"

definition clean_gender_data :: "cleaner \<Rightarrow> py_error + cleaner" where
  "clean_gender_data st =
     bind_result (get_col (df st) ''Gender'') (\<lambda>c0.
       let (st1, c1) = gender_prepass st c0;
           invalid_mask = invalid_gender_mask c1;
           invalid_genders = count_true invalid_mask
       in if invalid_genders > 0
          then Inr (add_issue (ConvertedInvalidGender invalid_genders)
                      (st1\<lparr>df := set_col (df st1) ''Gender'' (null_where invalid_mask c1)\<rparr>))
          else Inr (st1\<lparr>df := set_col (df st1) ''Gender'' c1\<rparr>))"

subsubsection \<open>\<^verbatim>\<open>clean_blood_types\<close>\<close>

definition valid_blood_types :: "string list" where
  "valid_blood_types = [''A+'', ''A-'', ''B+'', ''B-'', ''AB+'', ''AB-'', ''O+'', ''O-'']"

text \<open>\<^verbatim>\<open>~isin(valid_blood_types)\<close>, with no \<^verbatim>\<open>notna()\<close>: a missing cell is not one
  of the accepted codes.\<close>

definition invalid_blood_mask :: "column \<Rightarrow> bool list" where
  "invalid_blood_mask c =
     (case c of
        ObjectCol xs \<Rightarrow> map (\<lambda>x. case x of None \<Rightarrow> True | Some s \<Rightarrow> s \<notin> set valid_blood_types) xs
      | FloatCol xs \<Rightarrow> map (\<lambda>_. True) xs
      | DatetimeCol xs \<Rightarrow> map (\<lambda>_. True) xs)"

text \<open>Writing the text \<^verbatim>\<open>'Unknown'\<close> under the mask. In a column of numbers or
  timestamps every cell is under the mask, and the column becomes text.\<close>

definition mark_unknown :: "bool list \<Rightarrow> column \<Rightarrow> column" where
  "mark_unknown msk c =
     (case c of
        ObjectCol xs \<Rightarrow> ObjectCol (assign_where msk (Some ''Unknown'') xs)
      | FloatCol xs \<Rightarrow> ObjectCol (map (\<lambda>_. Some ''Unknown'') xs)
      | DatetimeCol xs \<Rightarrow> ObjectCol (map (\<lambda>_. Some ''Unknown'') xs))"

definition clean_blood_types :: "cleaner \<Rightarrow> py_error + cleaner" where
  "clean_blood_types st =
     bind_result (get_col (df st) ''Blood Type'') (\<lambda>c.
       let msk = invalid_blood_mask c; invalid_blood = count_true msk
       in if invalid_blood > 0
          then Inr (add_issue (MarkedInvalidBlood invalid_blood)
                      (st\<lparr>df := set_col (df st) ''Blood Type'' (mark_unknown msk c)\<rparr>))
          else Inr st)"

subsubsection \<open>\<^verbatim>\<open>clean_dates\<close>\<close>

text \<open>\<^verbatim>\<open>pd.to_datetime(series, errors='coerce')\<close>: a text that cannot be read becomes
  missing. The reader of texts is given the whole column, since pandas may infer one format
  for all of it.\<close>

definition to_datetime :: "pandas_env \<Rightarrow> column \<Rightarrow> column" where
  "to_datetime env c =
     (case c of
        ObjectCol xs \<Rightarrow>
          DatetimeCol (map (\<lambda>x. case x of None \<Rightarrow> None | Some s \<Rightarrow> parse_ts env xs s) xs)
      | FloatCol xs \<Rightarrow>
          DatetimeCol (map (\<lambda>x. case x of None \<Rightarrow> None | Some v \<Rightarrow> num_ts env v) xs)
      | DatetimeCol xs \<Rightarrow> DatetimeCol xs)"

definition convert_date_column :: "pandas_env \<Rightarrow> string \<Rightarrow> cleaner \<Rightarrow> py_error + cleaner" where
  "convert_date_column env col st =
     bind_result (get_col (df st) col) (\<lambda>c.
       let original_invalid = missing_count c;
           c' = to_datetime env c;
           new_invalid = missing_count c';
           st' = st\<lparr>df := set_col (df st) col c'\<rparr>
       in if new_invalid > original_invalid
          then Inr (add_issue (ConvertedInvalidDates (new_invalid - original_invalid) col) st')
          else Inr st')"

text \<open>\<^verbatim>\<open>df['Discharge Date'] < df['Date of Admission']\<close> on two datetime columns: a
  comparison with a missing timestamp is false.\<close>

definition before_mask :: "int option list \<Rightarrow> int option list \<Rightarrow> bool list" where
  "before_mask dis adm =
     map (\<lambda>(d, a). case (d, a) of (Some x, Some y) \<Rightarrow> x < y | _ \<Rightarrow> False) (zip dis adm)"

definition datetime_cells :: "column \<Rightarrow> py_error + int option list" where
  "datetime_cells c = (case c of DatetimeCol xs \<Rightarrow> Inr xs | _ \<Rightarrow> Inl DtypeError)"

definition null_out_end :: "cleaner \<Rightarrow> py_error + cleaner" where
  "null_out_end st =
     (if ''Date of Admission'' \<in> set (columns (df st)) \<and> ''Discharge Date'' \<in> set (columns (df st))
      then
        bind_result (get_col (df st) ''Discharge Date'') (\<lambda>dc.
        bind_result (get_col (df st) ''Date of Admission'') (\<lambda>ac.
        bind_result (datetime_cells dc) (\<lambda>dis.
        bind_result (datetime_cells ac) (\<lambda>adm.
          let msk = before_mask dis adm; invalid_date_logic = count_true msk
          in if invalid_date_logic > 0
             then Inr (add_issue (FixedDateSequences invalid_date_logic)
                         (st\<lparr>df := set_col (df st) ''Discharge Date''
                                       (DatetimeCol (assign_where msk None dis))\<rparr>))
             else Inr st))))
      else Inr st)"

definition clean_dates :: "pandas_env \<Rightarrow> cleaner \<Rightarrow> py_error + cleaner" where
  "clean_dates env st =
     bind_result (convert_date_column env ''Date of Admission'' st) (\<lambda>st1.
     bind_result (convert_date_column env ''Discharge Date'' st1) null_out_end)"

subsubsection \<open>\<^verbatim>\<open>clean_hospital_names\<close>\<close>

text \<open>\<^verbatim>\<open>\w\<close>: letters, digits and the underscore.\<close>

definition is_word :: "char \<Rightarrow> bool" where
  "is_word c = (is_upper c \<or> is_lower c \<or> c \<in> set ascii_digits \<or> c = CHR ''_'')"

text \<open>Whether the word \<open>w\<close> starts here, in any letter case, and ends at a word boundary.\<close>

definition word_here :: "string \<Rightarrow> string \<Rightarrow> bool" where
  "word_here w s =
     (lower (take (length w) s) = lower w \<and>
      (case drop (length w) s of [] \<Rightarrow> True | d # _ \<Rightarrow> \<not> is_word d))"

text \<open>\<^verbatim>\<open>re.sub(r'\bW\b', 'W', s, flags=re.IGNORECASE)\<close>: every whole-word occurrence of
  \<open>w\<close>, in any letter case, is rewritten as \<open>w\<close>. The first argument holds the letters
  of a replacement still to be written out, the second says whether the previous character
  was a word character.\<close>

fun sub_word_from :: "string \<Rightarrow> bool \<Rightarrow> string \<Rightarrow> string \<Rightarrow> string" where
  "sub_word_from pending prevw w [] = []"
| "sub_word_from (p # pending) prevw w (c # cs) = p # sub_word_from pending True w cs"
| "sub_word_from [] prevw w (c # cs) =
     (if \<not> prevw \<and> w \<noteq> [] \<and> word_here w (c # cs)
      then hd w # sub_word_from (tl w) True w cs
      else c # sub_word_from [] (is_word c) w cs)"

definition sub_word :: "string \<Rightarrow> string \<Rightarrow> string" where
  "sub_word w s = sub_word_from [] False w s"

definition clean_hospital_name :: "string \<Rightarrow> string" where
  "clean_hospital_name raw =
     (let name = strip (rstrip_char (CHR '','') (strip raw));
          name = sub_word ''LLC'' name;
          name = sub_word ''PLC'' name;
          name = sub_word ''Inc'' name;
          name = sub_word ''Ltd'' name
      in name)"

definition ends_with_comma :: "string \<Rightarrow> bool" where
  "ends_with_comma s = (s \<noteq> [] \<and> last s = CHR '','')"

definition clean_hospital_names :: "cleaner \<Rightarrow> py_error + cleaner" where
  "clean_hospital_names st =
     bind_result (get_col (df st) ''Hospital'') (\<lambda>c.
     bind_result (str_accessor c) (\<lambda>xs.
       let trailing_comma = count_where ends_with_comma xs
       in Inr (add_issue (CleanedHospitalNames trailing_comma)
                 (st\<lparr>df := set_col (df st) ''Hospital''
                               (ObjectCol (map (map_option clean_hospital_name) xs))\<rparr>))))"

subsubsection \<open>\<^verbatim>\<open>clean_numerical_data\<close>\<close>

text \<open>The cells of a column that is compared with a number. Comparing a text or a timestamp
  with a number raises; an object column without any text compares as
  all-missing.\<close>

definition numeric_cells :: "column \<Rightarrow> py_error + real option list" where
  "numeric_cells c =
     (case c of
        FloatCol xs \<Rightarrow> Inr xs
      | ObjectCol xs \<Rightarrow> if list_all (\<lambda>x. x = None) xs then Inr (map (\<lambda>_. None) xs)
                        else Inl DtypeError
      | DatetimeCol xs \<Rightarrow> Inl DtypeError)"

text \<open>Writing the changed cells back: an object column without any text is left as it is
  (no cell of it is ever under a mask).\<close>

definition put_numeric :: "column \<Rightarrow> real option list \<Rightarrow> column" where
  "put_numeric c xs = (case c of FloatCol _ \<Rightarrow> FloatCol xs | _ \<Rightarrow> c)"

definition cmp_mask :: "(real \<Rightarrow> bool) \<Rightarrow> real option list \<Rightarrow> bool list" where
  "cmp_mask P xs = map (\<lambda>x. case x of None \<Rightarrow> False | Some v \<Rightarrow> P v) xs"

definition clean_age :: "real option list \<Rightarrow> real option list \<times> nat" where
  "clean_age xs =
     (let msk = cmp_mask (\<lambda>v. v < 0 \<or> v > 120) xs; unrealistic_age = count_true msk
      in if unrealistic_age > 0 then (assign_where msk None xs, unrealistic_age) else (xs, 0))"

definition abs_where :: "bool list \<Rightarrow> real option list \<Rightarrow> real option list" where
  "abs_where msk xs = map (\<lambda>(m, x). if m then map_option abs x else x) (zip msk xs)"

definition clean_billing :: "real option list \<Rightarrow> real option list \<times> nat" where
  "clean_billing xs =
     (let negative_billing = count_true (cmp_mask (\<lambda>v. v < 0) xs);
          xs1 = (if negative_billing > 0 then abs_where (cmp_mask (\<lambda>v. v < 0) xs) xs else xs);
          issues1 = (if negative_billing > 0 then negative_billing else 0);
          unrealistic_billing = count_true (cmp_mask (\<lambda>v. v < 1 \<or> v > 1000000) xs1)
      in if unrealistic_billing > 0
         then (let xs2 = assign_where (cmp_mask (\<lambda>v. v > 1000000) xs1) (Some 1000000) xs1;
                   xs3 = assign_where (cmp_mask (\<lambda>v. v < 1) xs2) None xs2
               in (xs3, issues1 + unrealistic_billing))
         else (xs1, issues1))"

definition clean_room :: "real option list \<Rightarrow> real option list \<times> nat" where
  "clean_room xs =
     (let msk = cmp_mask (\<lambda>v. v < 1 \<or> v > 9999) xs; unrealistic_rooms = count_true msk
      in if unrealistic_rooms > 0 then (assign_where msk None xs, unrealistic_rooms) else (xs, 0))"

definition report_if :: "nat \<Rightarrow> (nat \<Rightarrow> issue) \<Rightarrow> cleaner \<Rightarrow> cleaner" where
  "report_if n mk st = (if n > 0 then add_issue (mk n) st else st)"

definition clean_numerical_data :: "cleaner \<Rightarrow> py_error + cleaner" where
  "clean_numerical_data st =
     bind_result (get_col (df st) ''Age'') (\<lambda>ac.
     bind_result (numeric_cells ac) (\<lambda>ages.
       let (ages', age_issues) = clean_age ages;
           d1 = set_col (df st) ''Age'' (put_numeric ac ages')
       in
     bind_result (get_col d1 ''Billing Amount'') (\<lambda>bc.
     bind_result (numeric_cells bc) (\<lambda>bills.
       let (bills', billing_issues) = clean_billing bills;
           d2 = set_col d1 ''Billing Amount'' (put_numeric bc bills')
       in
     bind_result (get_col d2 ''Room Number'') (\<lambda>rc.
     bind_result (numeric_cells rc) (\<lambda>rooms.
       let (rooms', room_issues) = clean_room rooms;
           d3 = set_col d2 ''Room Number'' (put_numeric rc rooms')
       in Inr (report_if room_issues FixedRoom
                 (report_if billing_issues FixedBilling
                    (report_if age_issues FixedAge (st\<lparr>df := d3\<rparr>))))))))))"

subsubsection \<open>\<^verbatim>\<open>clean_categorical_data\<close>\<close>

text \<open>\<^verbatim>\<open>series.apply(f)\<close> for an \<open>f\<close> that returns a missing cell as it is and
  \<^verbatim>\<open>g(str(x))\<close> otherwise. A column of numbers or timestamps with a present cell becomes
  text.\<close>

definition apply_text :: "pandas_env \<Rightarrow> (string \<Rightarrow> string) \<Rightarrow> column \<Rightarrow> column" where
  "apply_text env g c =
     (case c of
        ObjectCol xs \<Rightarrow> ObjectCol (map (map_option g) xs)
      | FloatCol xs \<Rightarrow>
          if list_all (\<lambda>x. x = None) xs then c
          else ObjectCol (map (map_option (\<lambda>v. g (str_num env v))) xs)
      | DatetimeCol xs \<Rightarrow>
          if list_all (\<lambda>x. x = None) xs then c
          else ObjectCol (map (map_option (\<lambda>t. g (str_ts env t))) xs))"

definition clean_insurance_name :: "string \<Rightarrow> string" where
  "clean_insurance_name s = title (strip s)"

definition clean_medication_name :: "string \<Rightarrow> string" where
  "clean_medication_name s = title (strip s)"

definition clean_categorical_data :: "pandas_env \<Rightarrow> cleaner \<Rightarrow> py_error + cleaner" where
  "clean_categorical_data env st =
     bind_result (get_col (df st) ''Medical Condition'') (\<lambda>_.
     bind_result (get_col (df st) ''Admission Type'') (\<lambda>_.
     bind_result (get_col (df st) ''Test Results'') (\<lambda>_.
     bind_result (get_col (df st) ''Insurance Provider'') (\<lambda>ic.
       let d1 = set_col (df st) ''Insurance Provider'' (apply_text env clean_insurance_name ic)
       in
     bind_result (get_col d1 ''Medication'') (\<lambda>mc.
       let d2 = set_col d1 ''Medication'' (apply_text env clean_medication_name mc)
       in Inr (add_issue StandardizedCategorical (st\<lparr>df := d2\<rparr>)))))))"

subsubsection \<open>\<^verbatim>\<open>handle_missing_values\<close>\<close>

text \<open>\<^verbatim>\<open>series.median()\<close> over the present cells; missing when there is none.\<close>

definition present :: "'a option list \<Rightarrow> 'a list" where
  "present xs = concat (map (\<lambda>x. case x of None \<Rightarrow> [] | Some v \<Rightarrow> [v]) xs)"

definition median :: "real option list \<Rightarrow> real option" where
  "median xs =
     (let vs = sort (present xs); n = length vs
      in if n = 0 then None
         else if odd n then Some (vs ! (n div 2))
         else Some ((vs ! (n div 2 - 1) + vs ! (n div 2)) / 2))"

text \<open>\<^verbatim>\<open>series.fillna(v)\<close>; filling with a missing value changes nothing.\<close>

definition fillna :: "'a option \<Rightarrow> 'a option list \<Rightarrow> 'a option list" where
  "fillna v xs = map (\<lambda>x. case x of None \<Rightarrow> v | Some y \<Rightarrow> Some y) xs"

definition median_ts :: "int option list \<Rightarrow> int option" where
  "median_ts xs =
     (let vs = sort (present xs); n = length vs
      in if n = 0 then None
         else if odd n then Some (vs ! (n div 2))
         else Some ((vs ! (n div 2 - 1) + vs ! (n div 2)) div 2))"

definition fill_median :: "column \<Rightarrow> py_error + column" where
  "fill_median c =
     (case c of
        FloatCol xs \<Rightarrow> Inr (FloatCol (fillna (median xs) xs))
      | DatetimeCol xs \<Rightarrow> Inr (DatetimeCol (fillna (median_ts xs) xs))
      | ObjectCol xs \<Rightarrow> if list_all (\<lambda>x. x = None) xs then Inr c else Inl DtypeError)"

text \<open>\<^verbatim>\<open>missing_summary\<close>: the columns with at least one missing cell, with their
  counts.\<close>

definition missing_summary :: "dataframe \<Rightarrow> (string \<times> nat) list" where
  "missing_summary d = filter (\<lambda>(_, n). n > 0) (map (\<lambda>(name, c). (name, missing_count c)) d)"

definition handle_missing_values :: "cleaner \<Rightarrow> py_error + cleaner" where
  "handle_missing_values st =
     (let ms = missing_summary (df st)
      in if length ms > 0
         then
           (case map_of ms ''Age'' of
              Some n \<Rightarrow>
                bind_result (get_col (df st) ''Age'') (\<lambda>c.
                bind_result (fill_median c) (\<lambda>c'.
                  Inr (add_issue AppliedMissingPolicies
                         (add_issue (FilledAges n) (st\<lparr>df := set_col (df st) ''Age'' c'\<rparr>)))))
            | None \<Rightarrow> Inr (add_issue AppliedMissingPolicies st))
         else Inr st)"

subsubsection \<open>\<^verbatim>\<open>detect_outliers\<close> and \<^verbatim>\<open>run_full_cleaning\<close>\<close>

text \<open>\<^verbatim>\<open>detect_outliers\<close> and \<^verbatim>\<open>generate_data_quality_report\<close> compute statistics
  and print them; the frame and the report are not written.\<close>

definition detect_outliers :: "cleaner \<Rightarrow> py_error + cleaner" where
  "detect_outliers st = Inr st"

definition run_full_cleaning :: "pandas_env \<Rightarrow> dataframe \<Rightarrow> py_error + cleaner" where
  "run_full_cleaning env d =
     bind_result (remove_duplicates (load_data d)) (\<lambda>st.
     bind_result (clean_names st) (\<lambda>st.
     bind_result (clean_gender_data st) (\<lambda>st.
     bind_result (clean_blood_types st) (\<lambda>st.
     bind_result (clean_dates env st) (\<lambda>st.
     bind_result (clean_hospital_names st) (\<lambda>st.
     bind_result (clean_numerical_data st) (\<lambda>st.
     bind_result (clean_categorical_data env st) (\<lambda>st.
     bind_result (handle_missing_values st) detect_outliers))))))))"

subsection \<open>The imputation handler (\<^verbatim>\<open>MLExpertMissingValueHandler\<close>)\<close>

text \<open>The entries appended to \<^verbatim>\<open>imputation_report['strategies_applied']\<close>.\<close>

datatype strategy =
    DroppedPII "string list"
  | ModeImputation string
  | DomainImputation string
  | StatisticalImputation string
  | FillImputation string
  | GenderModeImputation
  | FixedDateLogic nat
  | CreatedLengthOfStay
  | CreatedAgeGroup
  | CreatedBillingCategory

text \<open>The lines \<^verbatim>\<open>fix_date_logic_errors\<close> prints about what it found and verified.\<close>

datatype console_line =
    DateErrorsFound nat
  | DateFixVerified
  | DateFixResidual nat
  | NoDateErrors

record handler = frame +
  pii_columns :: "string list"
  categorical_low_missing :: "string list"
  categorical_high_missing :: "string list"
  numerical_missing :: "string list"
  date_missing :: "string list"
  keep_missing :: "string list"
  strategies_applied :: "strategy list"
  columns_processed :: "string list"
  rows_affected :: "(string \<times> nat) list"
  console :: "console_line list"

text \<open>The handler after \<^verbatim>\<open>load_data\<close>: the frame is read and its two date columns
  are datetime columns.\<close>

definition ml_load_data :: "dataframe \<Rightarrow> handler" where
  "ml_load_data d =
     \<lparr>df = d, pii_columns = [], categorical_low_missing = [], categorical_high_missing = [],
      numerical_missing = [], date_missing = [], keep_missing = [], strategies_applied = [],
      columns_processed = [], rows_affected = [], console = []\<rparr>"

text \<open>\<^verbatim>\<open>dict[key] = value\<close>.\<close>

fun set_item :: "('k \<times> 'v) list \<Rightarrow> 'k \<Rightarrow> 'v \<Rightarrow> ('k \<times> 'v) list" where
  "set_item [] k v = [(k, v)]"
| "set_item ((k0, v0) # d) k v = (if k0 = k then (k0, v) # d else (k0, v0) # set_item d k v)"

text \<open>The three report updates every imputation ends with.\<close>

definition record_imputation :: "strategy \<Rightarrow> string \<Rightarrow> nat \<Rightarrow> handler \<Rightarrow> handler" where
  "record_imputation s col n st =
     st\<lparr>strategies_applied := strategies_applied st @ [s],
        rows_affected := set_item (rows_affected st) col n,
        columns_processed := columns_processed st @ [col]\<rparr>"

text \<open>A \<^verbatim>\<open>for col in ...\<close> loop whose body may raise.\<close>

fun for_each :: "('a \<Rightarrow> 's \<Rightarrow> 'e + 's) \<Rightarrow> 'a list \<Rightarrow> 's \<Rightarrow> 'e + 's" where
  "for_each body [] st = Inr st"
| "for_each body (x # xs) st = bind_result (body x st) (for_each body xs)"

subsubsection \<open>\<^verbatim>\<open>analyze_missing_patterns\<close>\<close>

text \<open>\<^verbatim>\<open>sub in s\<close> for texts.\<close>

fun contains :: "string \<Rightarrow> string \<Rightarrow> bool" where
  "contains sub [] = (sub = [])"
| "contains sub (c # cs) = (take (length sub) (c # cs) = sub \<or> contains sub cs)"

definition classify :: "nat \<Rightarrow> string \<times> column \<Rightarrow> handler \<Rightarrow> handler" where
  "classify n = (\<lambda>(col, c) st.
     let miss_count = missing_count c;
         miss_pct_val = real miss_count / real n * 100
     in if miss_count = 0 then st
        else if col \<in> set (pii_columns st) then st
        else if contains ''date'' (lower col) \<or> dtype_of c = Datetime64
          then st\<lparr>date_missing := date_missing st @ [col]\<rparr>
        else if dtype_of c = Object \<and> miss_pct_val < 5
          then st\<lparr>categorical_low_missing := categorical_low_missing st @ [col]\<rparr>
        else if dtype_of c = Object \<and> miss_pct_val \<ge> 5
          then st\<lparr>categorical_high_missing := categorical_high_missing st @ [col]\<rparr>
        else if dtype_of c = Float64
          then st\<lparr>numerical_missing := numerical_missing st @ [col]\<rparr>
        else st\<lparr>keep_missing := keep_missing st @ [col]\<rparr>)"

definition analyze_missing_patterns :: "handler \<Rightarrow> py_error + handler" where
  "analyze_missing_patterns st =
     Inr (fold (classify (nrows (df st))) (df st)
            (st\<lparr>pii_columns := [''Name''], categorical_low_missing := [],
                categorical_high_missing := [], numerical_missing := [], date_missing := [],
                keep_missing := []\<rparr>))"

subsubsection \<open>\<^verbatim>\<open>drop_pii_columns\<close>\<close>

definition drop_columns :: "string list \<Rightarrow> dataframe \<Rightarrow> dataframe" where
  "drop_columns cols d = filter (\<lambda>(name, _). name \<notin> set cols) d"

definition drop_pii_columns :: "handler \<Rightarrow> py_error + handler" where
  "drop_pii_columns st =
     (let cols_to_drop = filter (\<lambda>col. col \<in> set (columns (df st))) (pii_columns st)
      in if cols_to_drop \<noteq> []
         then Inr (st\<lparr>df := drop_columns cols_to_drop (df st),
                      strategies_applied := strategies_applied st @ [DroppedPII cols_to_drop],
                      columns_processed := columns_processed st @ cols_to_drop\<rparr>)
         else Inr st)"

subsubsection \<open>Mode imputation\<close>

text \<open>\<^verbatim>\<open>series.mode()\<close> lists the most frequent present values in increasing order;
  the source takes the first. There is none when every cell is missing.\<close>

definition mode_of :: "('a :: linorder) option list \<Rightarrow> 'a option" where
  "mode_of xs =
     (let vs = present xs;
          ds = sort (remdups vs);
          best = fold max (map (\<lambda>v. count_list vs v) ds) 0
      in find (\<lambda>v. count_list vs v = best) ds)"

definition mode_fill :: "column \<Rightarrow> column option" where
  "mode_fill c =
     (case c of
        ObjectCol xs \<Rightarrow> map_option (\<lambda>m. ObjectCol (fillna (Some m) xs)) (mode_of xs)
      | FloatCol xs \<Rightarrow> map_option (\<lambda>m. FloatCol (fillna (Some m) xs)) (mode_of xs)
      | DatetimeCol xs \<Rightarrow> map_option (\<lambda>m. DatetimeCol (fillna (Some m) xs)) (mode_of xs))"

definition impute_low_column :: "string \<Rightarrow> handler \<Rightarrow> py_error + handler" where
  "impute_low_column col st =
     (case map_of (df st) col of
        None \<Rightarrow> Inr st
      | Some c \<Rightarrow>
          let missing = missing_count c
          in if missing = 0 then Inr st
             else (case mode_fill c of
                     None \<Rightarrow> Inr st
                   | Some c' \<Rightarrow>
                       Inr (record_imputation (ModeImputation col) col missing
                              (st\<lparr>df := set_col (df st) col c'\<rparr>))))"

definition impute_categorical_low_missing :: "handler \<Rightarrow> py_error + handler" where
  "impute_categorical_low_missing st = for_each impute_low_column (categorical_low_missing st) st"

subsubsection \<open>\<^verbatim>\<open>impute_categorical_high_missing\<close>\<close>

text \<open>\<^verbatim>\<open>series.fillna(text)\<close>. The lists of categorical columns hold object columns
  only; were a text filled into a column of numbers or timestamps, the column would become an
  object column, whose present cells the model then carries in their printed form.\<close>

definition fill_text :: "pandas_env \<Rightarrow> string \<Rightarrow> column \<Rightarrow> column" where
  "fill_text env v c =
     (case c of
        ObjectCol xs \<Rightarrow> ObjectCol (fillna (Some v) xs)
      | FloatCol xs \<Rightarrow>
          ObjectCol (map (\<lambda>x. case x of None \<Rightarrow> Some v | Some r \<Rightarrow> Some (str_num env r)) xs)
      | DatetimeCol xs \<Rightarrow>
          ObjectCol (map (\<lambda>x. case x of None \<Rightarrow> Some v | Some t \<Rightarrow> Some (str_ts env t)) xs))"

definition impute_high_value :: "pandas_env \<Rightarrow> string \<Rightarrow> column \<Rightarrow> column" where
  "impute_high_value env col c =
     (if col = ''Insurance Provider'' then fill_text env ''Self-Pay'' c
      else if col = ''Medication'' then fill_text env ''No Medication'' c
      else if col = ''Admission Type''
        then (case mode_fill c of Some c' \<Rightarrow> c' | None \<Rightarrow> fill_text env ''Emergency'' c)
      else fill_text env ''Unknown'' c)"

definition impute_high_column :: "pandas_env \<Rightarrow> string \<Rightarrow> handler \<Rightarrow> py_error + handler" where
  "impute_high_column env col st =
     (case map_of (df st) col of
        None \<Rightarrow> Inr st
      | Some c \<Rightarrow>
          let missing = missing_count c
          in if missing = 0 then Inr st
             else Inr (record_imputation (DomainImputation col) col missing
                         (st\<lparr>df := set_col (df st) col (impute_high_value env col c)\<rparr>)))"

definition impute_categorical_high_missing :: "pandas_env \<Rightarrow> handler \<Rightarrow> py_error + handler" where
  "impute_categorical_high_missing env st =
     for_each (impute_high_column env) (categorical_high_missing st) st"

subsubsection \<open>\<^verbatim>\<open>impute_numerical_data\<close>\<close>

text \<open>\<^verbatim>\<open>series.mean()\<close> over the present cells; missing when there is none.\<close>

definition mean :: "real option list \<Rightarrow> real option" where
  "mean xs = (let vs = present xs in if vs = [] then None else Some (sum_list vs / real (length vs)))"

definition mean_ts :: "int option list \<Rightarrow> int option" where
  "mean_ts xs = (let vs = present xs in if vs = [] then None else Some (sum_list vs div int (length vs)))"

definition fill_mean :: "column \<Rightarrow> py_error + column" where
  "fill_mean c =
     (case c of
        FloatCol xs \<Rightarrow> Inr (FloatCol (fillna (mean xs) xs))
      | DatetimeCol xs \<Rightarrow> Inr (DatetimeCol (fillna (mean_ts xs) xs))
      | ObjectCol xs \<Rightarrow> if list_all (\<lambda>x. x = None) xs then Inr c else Inl DtypeError)"

definition impute_numerical_column :: "string \<Rightarrow> handler \<Rightarrow> py_error + handler" where
  "impute_numerical_column col st =
     (case map_of (df st) col of
        None \<Rightarrow> Inr st
      | Some c \<Rightarrow>
          let missing = missing_count c
          in if missing = 0 then Inr st
             else bind_result
                    (if contains ''billing'' (lower col) \<or> contains ''amount'' (lower col)
                     then fill_median c else fill_mean c)
                    (\<lambda>c'. Inr (record_imputation (StatisticalImputation col) col missing
                                 (st\<lparr>df := set_col (df st) col c'\<rparr>))))"

definition impute_numerical_data :: "handler \<Rightarrow> py_error + handler" where
  "impute_numerical_data st = for_each impute_numerical_column (numerical_missing st) st"

subsubsection \<open>\<^verbatim>\<open>impute_date_data\<close>\<close>

text \<open>\<^verbatim>\<open>fillna(method='ffill')\<close> carries the last present cell forward;
  \<^verbatim>\<open>fillna(method='bfill')\<close> carries the next present cell backward.\<close>

fun ffill_from :: "'a option \<Rightarrow> 'a option list \<Rightarrow> 'a option list" where
  "ffill_from prev [] = []"
| "ffill_from prev (None # xs) = prev # ffill_from prev xs"
| "ffill_from prev (Some v # xs) = Some v # ffill_from (Some v) xs"

definition ffill :: "'a option list \<Rightarrow> 'a option list" where
  "ffill xs = ffill_from None xs"

definition bfill :: "'a option list \<Rightarrow> 'a option list" where
  "bfill xs = rev (ffill (rev xs))"

definition ffill_bfill :: "column \<Rightarrow> column" where
  "ffill_bfill c =
     (case c of ObjectCol xs \<Rightarrow> ObjectCol (bfill (ffill xs))
      | FloatCol xs \<Rightarrow> FloatCol (bfill (ffill xs))
      | DatetimeCol xs \<Rightarrow> DatetimeCol (bfill (ffill xs)))"

definition impute_date_column :: "string \<Rightarrow> handler \<Rightarrow> py_error + handler" where
  "impute_date_column col st =
     (case map_of (df st) col of
        None \<Rightarrow> Inr st
      | Some c \<Rightarrow>
          let missing = missing_count c
          in if missing = 0 then Inr st
             else if contains ''admission'' (lower col)
               then Inr (record_imputation (FillImputation col) col missing
                           (st\<lparr>df := set_col (df st) col (ffill_bfill c)\<rparr>))
               else Inr (record_imputation (FillImputation col) col missing
                           (st\<lparr>df := set_col (df st) col (ffill_bfill c)\<rparr>)))"

definition impute_date_data :: "handler \<Rightarrow> py_error + handler" where
  "impute_date_data st = for_each impute_date_column (date_missing st) st"

subsubsection \<open>\<^verbatim>\<open>handle_gender_missing\<close> and \<^verbatim>\<open>validate_imputation\<close>\<close>

definition handle_gender_missing :: "handler \<Rightarrow> py_error + handler" where
  "handle_gender_missing st =
     (case map_of (df st) ''Gender'' of
        None \<Rightarrow> Inr st
      | Some c \<Rightarrow>
          let missing = missing_count c
          in if missing = 0 then Inr st
             else (case mode_fill c of
                     None \<Rightarrow> Inr st
                   | Some c' \<Rightarrow>
                       Inr (record_imputation GenderModeImputation ''Gender'' missing
                              (st\<lparr>df := set_col (df st) ''Gender'' c'\<rparr>))))"

definition validate_imputation :: "handler \<Rightarrow> bool" where
  "validate_imputation st = (missing_summary (df st) = [])"

subsubsection \<open>\<^verbatim>\<open>fix_date_logic_errors\<close>\<close>

definition ns_per_day :: int where
  "ns_per_day = 86400000000000"

definition int64_min :: int where
  "int64_min = - 9223372036854775808"

definition int64_max :: int where
  "int64_max = 9223372036854775807"

text \<open>The difference of two timestamps does not fit 64 bits.\<close>

definition overflows :: "int \<Rightarrow> int \<Rightarrow> bool" where
  "overflows x y = (x - y < int64_min \<or> int64_max < x - y)"

text \<open>One cell of \<^verbatim>\<open>(end - start).dt.days\<close>: missing when a date is missing, and also
  when the difference is exactly the smallest 64-bit integer, which is the marker of a missing
  time; otherwise the whole days of the difference, rounded down.\<close>

definition los_cell :: "int option \<times> int option \<Rightarrow> int option" where
  "los_cell = (\<lambda>(d, a). case (d, a) of
      (Some x, Some y) \<Rightarrow> if x - y = int64_min then None else Some ((x - y) div ns_per_day)
    | _ \<Rightarrow> None)"

definition overflow_cell :: "int option \<times> int option \<Rightarrow> bool" where
  "overflow_cell = (\<lambda>(d, a). case (d, a) of (Some x, Some y) \<Rightarrow> overflows x y | _ \<Rightarrow> False)"

text \<open>\<^verbatim>\<open>(df['Discharge Date'] - df['Date of Admission']).dt.days\<close>. The subtraction of
  two datetime columns is checked: it raises \<^verbatim>\<open>OverflowError\<close> when the difference of a
  row does not fit 64 bits. The subtraction and the \<^verbatim>\<open>.dt\<close> accessor need two datetime
  columns.\<close>

definition los_days :: "int option list \<Rightarrow> int option list \<Rightarrow> py_error + int option list" where
  "los_days dis adm =
     (if list_ex overflow_cell (zip dis adm) then Inl OverflowError
      else Inr (map los_cell (zip dis adm)))"

definition date_columns :: "dataframe \<Rightarrow> py_error + (int option list \<times> int option list)" where
  "date_columns d =
     bind_result (get_col d ''Discharge Date'') (\<lambda>dc.
     bind_result (get_col d ''Date of Admission'') (\<lambda>ac.
     bind_result (datetime_cells dc) (\<lambda>dis.
     bind_result (datetime_cells ac) (\<lambda>adm. Inr (dis, adm)))))"

definition negative_mask :: "int option list \<Rightarrow> bool list" where
  "negative_mask los = map (\<lambda>l. case l of None \<Rightarrow> False | Some v \<Rightarrow> v < 0) los"

text \<open>The three assignments that exchange the two dates of the rows under the mask.\<close>

definition swap_dates :: "bool list \<Rightarrow> dataframe \<Rightarrow> int option list \<Rightarrow> int option list \<Rightarrow> dataframe" where
  "swap_dates msk d dis adm =
     (let admission_temp = adm;
          d1 = set_col d ''Date of Admission''
                 (DatetimeCol (map (\<lambda>(m, a, x). if m then x else a) (zip msk (zip adm dis))));
          d2 = set_col d1 ''Discharge Date''
                 (DatetimeCol (map (\<lambda>(m, x, a). if m then a else x)
                                 (zip msk (zip dis admission_temp))))
      in d2)"

text \<open>The verification after the swap: the remaining negative stays are counted and one of
  two lines is printed. Neither branch raises.\<close>

definition verify_date_fix :: "handler \<Rightarrow> py_error + handler" where
  "verify_date_fix st =
     bind_result (date_columns (df st)) (\<lambda>(dis, adm).
     bind_result (los_days dis adm) (\<lambda>los_fixed.
       let remaining_negative = count_true (negative_mask los_fixed)
       in if remaining_negative = 0
          then Inr (st\<lparr>console := console st @ [DateFixVerified]\<rparr>)
          else Inr (st\<lparr>console := console st @ [DateFixResidual remaining_negative]\<rparr>)))"

definition fix_date_logic_errors :: "handler \<Rightarrow> py_error + handler" where
  "fix_date_logic_errors st =
     (if ''Date of Admission'' \<in> set (columns (df st)) \<and> ''Discharge Date'' \<in> set (columns (df st))
      then
        bind_result (date_columns (df st)) (\<lambda>(dis, adm).
        bind_result (los_days dis adm) (\<lambda>los_initial.
          let negative_los = negative_mask los_initial;
              negative_count = count_true negative_los
          in if negative_count > 0
             then verify_date_fix
                    (st\<lparr>df := swap_dates negative_los (df st) dis adm,
                        strategies_applied := strategies_applied st @ [FixedDateLogic negative_count],
                        rows_affected := set_item (rows_affected st) ''Date_Logic_Fix'' negative_count,
                        console := console st @ [DateErrorsFound negative_count]\<rparr>)
             else Inr (st\<lparr>console := console st @ [NoDateErrors]\<rparr>)))
      else Inr st)"

subsubsection \<open>\<^verbatim>\<open>generate_ml_ready_features\<close>\<close>

definition add_strategy :: "strategy \<Rightarrow> handler \<Rightarrow> handler" where
  "add_strategy s st = st\<lparr>strategies_applied := strategies_applied st @ [s]\<rparr>"

text \<open>Feature 1: \<^verbatim>\<open>Length_of_Stay\<close>.\<close>

definition feature_length_of_stay :: "handler \<Rightarrow> py_error + handler" where
  "feature_length_of_stay st =
     (if ''Date of Admission'' \<in> set (columns (df st)) \<and> ''Discharge Date'' \<in> set (columns (df st))
      then
        bind_result (date_columns (df st)) (\<lambda>(dis, adm).
        bind_result (los_days dis adm) (\<lambda>los.
          Inr (add_strategy CreatedLengthOfStay
                 (st\<lparr>df := set_col (df st) ''Length_of_Stay''
                               (FloatCol (map (map_option real_of_int) los))\<rparr>))))
      else Inr st)"

text \<open>Feature 2: \<^verbatim>\<open>pd.cut(age, bins=[0, 18, 35, 50, 65, 100], labels=[...])\<close>. The bins are
  open on the left and closed on the right; a value in no bin has no label.\<close>

definition cut_age :: "real \<Rightarrow> string option" where
  "cut_age v =
     (if 0 < v \<and> v \<le> 18 then Some ''Child''
      else if 18 < v \<and> v \<le> 35 then Some ''Young_Adult''
      else if 35 < v \<and> v \<le> 50 then Some ''Adult''
      else if 50 < v \<and> v \<le> 65 then Some ''Middle_Age''
      else if 65 < v \<and> v \<le> 100 then Some ''Senior''
      else None)"

definition feature_age_group :: "handler \<Rightarrow> py_error + handler" where
  "feature_age_group st =
     (if ''Age'' \<in> set (columns (df st))
      then
        bind_result (get_col (df st) ''Age'') (\<lambda>c.
        bind_result (numeric_cells c) (\<lambda>ages.
          Inr (add_strategy CreatedAgeGroup
                 (st\<lparr>df := set_col (df st) ''Age_Group''
                               (ObjectCol (map (\<lambda>x. case x of None \<Rightarrow> None | Some v \<Rightarrow> cut_age v)
                                             ages))\<rparr>))))
      else Inr st)"

text \<open>Feature 3: \<^verbatim>\<open>series.quantile(q)\<close> interpolates linearly between the two nearest
  present values; \<^verbatim>\<open>pd.cut\<close> raises \<^verbatim>\<open>ValueError\<close> unless the bin edges
  \<^verbatim>\<open>[0, q25, q50, q75, inf]\<close> increase strictly.\<close>

definition quantile :: "real \<Rightarrow> real option list \<Rightarrow> real option" where
  "quantile q xs =
     (let vs = sort (present xs); n = length vs
      in if n = 0 then None
         else (let pos = real (n - 1) * q; j = nat \<lfloor>pos\<rfloor>; fr = pos - real j
               in if j + 1 < n then Some (vs ! j + fr * (vs ! (j + 1) - vs ! j))
                  else Some (vs ! j)))"

definition cut_billing :: "real \<Rightarrow> real \<Rightarrow> real \<Rightarrow> real \<Rightarrow> string option" where
  "cut_billing q25 q50 q75 v =
     (if 0 < v \<and> v \<le> q25 then Some ''Low''
      else if q25 < v \<and> v \<le> q50 then Some ''Medium''
      else if q50 < v \<and> v \<le> q75 then Some ''High''
      else if q75 < v then Some ''Very_High''
      else None)"

definition feature_billing_category :: "handler \<Rightarrow> py_error + handler" where
  "feature_billing_category st =
     (if ''Billing Amount'' \<in> set (columns (df st))
      then
        bind_result (get_col (df st) ''Billing Amount'') (\<lambda>c.
        bind_result (numeric_cells c) (\<lambda>bills.
          case (quantile (1/4) bills, quantile (1/2) bills, quantile (3/4) bills) of
            (Some q25, Some q50, Some q75) \<Rightarrow>
              if 0 < q25 \<and> q25 < q50 \<and> q50 < q75
              then Inr (add_strategy CreatedBillingCategory
                          (st\<lparr>df := set_col (df st) ''Billing_Category''
                                        (ObjectCol (map (\<lambda>x. case x of None \<Rightarrow> None
                                                           | Some v \<Rightarrow> cut_billing q25 q50 q75 v)
                                                      bills))\<rparr>))
              else Inl ValueError
          | _ \<Rightarrow> Inl ValueError))
      else Inr st)"

definition generate_ml_ready_features :: "handler \<Rightarrow> py_error + handler" where
  "generate_ml_ready_features st =
     bind_result (feature_length_of_stay st) (\<lambda>st.
     bind_result (feature_age_group st) feature_billing_category)"

subsubsection \<open>\<^verbatim>\<open>run_ml_imputation_pipeline\<close>\<close>

text \<open>The pipeline returns the frame (here inside the handler) and the verdict of
  \<^verbatim>\<open>validate_imputation\<close>.\<close>

definition run_ml_imputation_pipeline :: "pandas_env \<Rightarrow> dataframe \<Rightarrow> py_error + handler \<times> bool" where
  "run_ml_imputation_pipeline env d =
     bind_result (analyze_missing_patterns (ml_load_data d)) (\<lambda>st.
     bind_result (drop_pii_columns st) (\<lambda>st.
     bind_result (impute_categorical_low_missing st) (\<lambda>st.
     bind_result (impute_categorical_high_missing env st) (\<lambda>st.
     bind_result (impute_numerical_data st) (\<lambda>st.
     bind_result (impute_date_data st) (\<lambda>st.
     bind_result (handle_gender_missing st) (\<lambda>st.
     bind_result (fix_date_logic_errors st) (\<lambda>st.
       let success = validate_imputation st
       in bind_result (generate_ml_ready_features st) (\<lambda>st. Inr (st, success))))))))))"

text \<open>Calendar dates as timestamps (days from the civil date, proleptic Gregorian), to read
  the timestamps of the example rows.\<close>

definition days_from_civil :: "int \<Rightarrow> int \<Rightarrow> int \<Rightarrow> int" where
  "days_from_civil y m d =
     (let y' = (if m \<le> 2 then y - 1 else y);
          era = y' div 400;
          yoe = y' - era * 400;
          mp = (m + 9) mod 12;
          doy = (153 * mp + 2) div 5 + d - 1;
          doe = yoe * 365 + yoe div 4 - yoe div 100 + doy
      in era * 146097 + doe - 719468)"

definition timestamp :: "int \<Rightarrow> int \<Rightarrow> int \<Rightarrow> int" where
  "timestamp y m d = days_from_civil y m d * 86400000000000"

subsection \<open>Predicates of the specification and example frames\<close>

text \<open>Every cell is missing or lies in the closed range.\<close>

definition in_range_or_absent :: "real \<Rightarrow> real \<Rightarrow> real option list \<Rightarrow> bool" where
  "in_range_or_absent lo hi xs =
     list_all (\<lambda>x. case x of None \<Rightarrow> True | Some v \<Rightarrow> lo \<le> v \<and> v \<le> hi) xs"

text \<open>A frame with the three numeric columns: one age above 120, a negative and an
  excessive billing amount, a missing room number.\<close>

definition numeric_example :: dataframe where
  "numeric_example =
     [(''Age'', FloatCol [Some 34, Some 130, Some 110]),
      (''Billing Amount'', FloatCol [Some (-500), Some 2000000, Some (1/2)]),
      (''Room Number'', FloatCol [Some 101, None, Some 7])]"



definition feature_example_fixed :: handler where
  "feature_example_fixed =
     (ml_load_data
       [(''Age'', FloatCol [Some 110, None, Some 0, Some 30]),
        (''Date of Admission'',
           DatetimeCol [Some 1714521600000000000, Some 1704067200000000000, None,
                        Some 1709251200000000000]),
        (''Discharge Date'',
           DatetimeCol [Some 1715299200000000000, Some 1704412800000000000,
                        Some 1706832000000000000, Some 1709251200000000000]),
        (''Billing Amount'', FloatCol [Some 100, Some 200, Some 300, Some 400])])
     \<lparr>strategies_applied := [FixedDateLogic 1],
      rows_affected := [(''Date_Logic_Fix'', 1)],
      console := [DateErrorsFound 1, DateFixVerified]\<rparr>"

definition feature_example_done :: handler where
  "feature_example_done =
     feature_example_fixed
       \<lparr>df := df feature_example_fixed @
               [(''Length_of_Stay'', FloatCol [Some 9, Some 4, None, Some 0]),
                (''Age_Group'', ObjectCol [None, None, None, Some ''Young_Adult'']),
                (''Billing_Category'',
                   ObjectCol [Some ''Low'', Some ''Medium'', Some ''High'', Some ''Very_High''])],
        strategies_applied :=
          [FixedDateLogic 1, CreatedLengthOfStay, CreatedAgeGroup, CreatedBillingCategory]\<rparr>"



text \<open>What a comparison mask says about one cell.\<close>

definition holds :: "(real \<Rightarrow> bool) \<Rightarrow> real option \<Rightarrow> bool" where
  "holds P x = (case x of None \<Rightarrow> False | Some v \<Rightarrow> P v)"

text \<open>The billing rule, cell by cell: the sign is flipped first, then the value is capped
  at the ceiling or, below the floor, made missing.\<close>

definition billing_cell :: "real option \<Rightarrow> real option" where
  "billing_cell x =
     (case x of None \<Rightarrow> None
      | Some v \<Rightarrow> (let w = (if v < 0 then - v else v)
                   in if w > 1000000 then Some 1000000 else if w < 1 then None else Some w))"

text \<open>The pre-pass, cell by cell.\<close>

definition prepass_cell :: "string option \<Rightarrow> string option" where
  "prepass_cell x = (case x of None \<Rightarrow> None | Some s \<Rightarrow> if literal_nan s then None else Some s)"

text \<open>The whole gender rule, cell by cell.\<close>

definition gender_cell :: "string option \<Rightarrow> string option" where
  "gender_cell x =
     (case x of None \<Rightarrow> None | Some s \<Rightarrow> if s \<in> set valid_genders then Some s else None)"

text \<open>The blood type rule, cell by cell.\<close>

definition blood_cell :: "string option \<Rightarrow> string option" where
  "blood_cell x =
     (case x of None \<Rightarrow> Some ''Unknown''
      | Some s \<Rightarrow> if s \<in> set valid_blood_types then Some s else Some ''Unknown'')"

definition categorical_example :: dataframe where
  "categorical_example =
     [(''Gender'', ObjectCol [Some ''Male'', None, Some ''Other'', Some ''NaN'', Some ''Female'']),
      (''Blood Type'', ObjectCol [Some ''A+'', None, Some ''C+'', Some ''O-'', Some ''AB-''])]"

definition uppercase_nan_example :: dataframe where
  "uppercase_nan_example = [(''Gender'', ObjectCol [Some ''NAN'', Some ''Male''])]"

definition absent_blood_example :: dataframe where
  "absent_blood_example = [(''Blood Type'', ObjectCol [None, Some ''A+''])]"

definition example_env :: pandas_env where
  "example_env = \<lparr>parse_ts = (\<lambda>_ _. None), num_ts = (\<lambda>_. None),
                   str_num = (\<lambda>_. []), str_ts = (\<lambda>_. [])\<rparr>"

definition age_only_example :: dataframe where
  "age_only_example = [(''Age'', FloatCol [Some 30, Some 40])]"

definition notes_example :: dataframe where
  "notes_example = [(''Notes'', ObjectCol [Some ''stable'', None])]"

text \<open>What a rule of the cleaner does about the columns \<open>cols\<close> it reads: when it returns,
  they were all in the table and the table has the same columns as before; when it raises
  \<^verbatim>\<open>KeyError\<close>, the error names one of them that is missing.\<close>

definition reads_ok :: "(cleaner \<Rightarrow> py_error + cleaner) \<Rightarrow> string list \<Rightarrow> bool" where
  "reads_ok rule cols =
     (\<forall>st. (\<forall>st'. rule st = Inr st' \<longrightarrow>
                 set cols \<subseteq> set (columns (df st)) \<and> set (columns (df st')) = set (columns (df st))) \<and>
           (\<forall>c. rule st = Inl (KeyError c) \<longrightarrow> c \<in> set cols \<and> c \<notin> set (columns (df st))))"

text \<open>A result that is not a \<^verbatim>\<open>KeyError\<close>.\<close>

definition no_key_error :: "py_error + 'a \<Rightarrow> bool" where
  "no_key_error r = (\<forall>c. r \<noteq> Inl (KeyError c))"

text \<open>A frame with the admission dates only.\<close>

definition admission_only_example :: dataframe where
  "admission_only_example = [(''Date of Admission'', DatetimeCol [Some 1715299200000000000])]"

section \<open>Properties\<close>

subsection \<open>Frames, columns and sequencing\<close>

lemma map_of_set_col_same: "map_of (set_col d n c) n = Some c"
  by (induction d n c rule: set_col.induct) auto

lemma map_of_set_col_other: "m \<noteq> n \<Longrightarrow> map_of (set_col d n c) m = map_of d m"
  by (induction d n c rule: set_col.induct) auto

lemma get_col_set_col_same: "get_col (set_col d n c) n = Inr c"
  by (simp add: get_col_def map_of_set_col_same)

lemma get_col_set_col_other: "m \<noteq> n \<Longrightarrow> get_col (set_col d n c) m = get_col d m"
  by (simp add: get_col_def map_of_set_col_other)

lemma bind_result_Inr:
  "bind_result m f = Inr y \<longleftrightarrow> (\<exists>x. m = Inr x \<and> f x = Inr y)"
  by (cases m) (auto simp: bind_result_def)

lemma df_add_issue [simp]: "df (add_issue i st) = df st"
  by (simp add: add_issue_def)

lemma df_report_if [simp]: "df (report_if n mk st) = df st"
  by (simp add: report_if_def)

lemma zip_map_self: "map (\<lambda>(m, x). f m x) (zip (map g xs) xs) = map (\<lambda>x. f (g x) x) xs"
  by (induction xs) auto

lemma count_true_map: "count_true (map g xs) = length (filter g xs)"
  by (simp add: count_true_def filter_map o_def)

lemma count_true_zero: "count_true (map g xs) = 0 \<Longrightarrow> x \<in> set xs \<Longrightarrow> \<not> g x"
  by (simp add: count_true_map filter_empty_conv)

lemma map_if_none: "count_true (map g xs) = 0 \<Longrightarrow> map (\<lambda>x. if g x then h x else x) xs = xs"
  by (simp add: count_true_map filter_empty_conv map_idI)

subsection \<open>The numeric range rule\<close>

lemma cmp_mask_holds: "cmp_mask P xs = map (holds P) xs"
  by (simp add: cmp_mask_def holds_def)

lemma assign_where_cmp:
  "assign_where (cmp_mask P xs) v xs = map (\<lambda>x. if holds P x then v else x) xs"
  by (simp add: assign_where_def cmp_mask_holds zip_map_self)

lemma abs_where_cmp:
  "abs_where (cmp_mask P xs) xs = map (\<lambda>x. if holds P x then map_option abs x else x) xs"
  by (simp add: abs_where_def cmp_mask_holds zip_map_self)

lemma clean_billing_cells: "fst (clean_billing xs) = map billing_cell xs"
proof -
  let ?neg = "\<lambda>x. if holds (\<lambda>v. v < 0) x then map_option abs x else x"
  let ?cap = "\<lambda>x. if holds (\<lambda>v. v > 1000000) x then Some 1000000 else x"
  let ?low = "\<lambda>x. if holds (\<lambda>v. v < 1) x then None else x"
  define xs1 where "xs1 = map ?neg xs"
  have s1: "(if count_true (cmp_mask (\<lambda>v. v < 0) xs) > 0
             then abs_where (cmp_mask (\<lambda>v. v < 0) xs) xs else xs) = xs1"
    unfolding xs1_def abs_where_cmp
    using map_if_none [of "holds (\<lambda>v. v < 0)" xs "map_option abs"]
    by (auto simp: cmp_mask_holds)
  have bad0: "map (\<lambda>x. ?low (?cap x)) xs1 = xs1"
    if z: "count_true (cmp_mask (\<lambda>v. v < 1 \<or> v > 1000000) xs1) = 0"
  proof -
    have "\<And>x. x \<in> set xs1 \<Longrightarrow> ?low (?cap x) = x"
      using count_true_zero [of "holds (\<lambda>v. v < 1 \<or> v > 1000000)" xs1] z
      by (fastforce simp: cmp_mask_holds holds_def split: option.splits)
    then show ?thesis by (simp add: map_idI)
  qed
  have s2: "fst (clean_billing xs) = map (\<lambda>x. ?low (?cap x)) xs1"
    unfolding clean_billing_def Let_def s1 assign_where_cmp
    using bad0 by (auto simp: o_def)
  have "\<And>x. ?low (?cap (?neg x)) = billing_cell x"
    by (auto simp: billing_cell_def holds_def Let_def split: option.splits)
  then show ?thesis unfolding s2 xs1_def by (simp add: o_def)
qed

lemma clean_numerical_data_Inr:
  assumes "clean_numerical_data st = Inr st'"
  obtains ac ages bc bills rc rooms where
    "get_col (df st) ''Age'' = Inr ac" "numeric_cells ac = Inr ages"
    "get_col (df st) ''Billing Amount'' = Inr bc" "numeric_cells bc = Inr bills"
    "get_col (df st) ''Room Number'' = Inr rc" "numeric_cells rc = Inr rooms"
    "df st' = set_col (set_col (set_col (df st) ''Age'' (put_numeric ac (fst (clean_age ages))))
                  ''Billing Amount'' (put_numeric bc (fst (clean_billing bills))))
                  ''Room Number'' (put_numeric rc (fst (clean_room rooms)))"
  using assms
  by (auto simp: clean_numerical_data_def bind_result_Inr Let_def get_col_set_col_other
           case_prod_beta)

lemma numeric_cells_put:
  assumes "numeric_cells c = Inr xs" "f None = None"
  shows "numeric_cells (put_numeric c (map f xs)) = Inr (map f xs)"
  using assms
  by (cases c) (auto simp: numeric_cells_def put_numeric_def list_all_iff split: if_splits)

lemma billing_cell_range:
  "case billing_cell x of None \<Rightarrow> True | Some v \<Rightarrow> 1 \<le> v \<and> v \<le> 1000000"
  by (auto simp: billing_cell_def Let_def split: option.splits)

lemma numeric_example_cleaned:
  "clean_numerical_data (load_data numeric_example) =
     Inr \<lparr>df = [(''Age'', FloatCol [Some 34, None, Some 110]),
                (''Billing Amount'', FloatCol [Some 500, Some 1000000, None]),
                (''Room Number'', FloatCol [Some 101, None, Some 7])],
          original_rows = 3, issues_fixed = [FixedAge 1, FixedBilling 3]\<rparr>"
  by (simp add: clean_numerical_data_def load_data_def numeric_example_def bind_result_def
      get_col_def numeric_cells_def clean_age_def clean_billing_def clean_room_def cmp_mask_def
      count_true_def assign_where_def abs_where_def put_numeric_def report_if_def add_issue_def
      nrows_def col_len_def Let_def)

text \<open>
  Claim C6: after the numeric range rule has run on the currency column, every Billing
  Amount is missing or lies in the closed range from 1 to 1000000, so none is negative; the
  column keeps its length (no row is dropped), and a negative amount whose absolute value
  lies in the range, such as -500, comes out with its sign flipped.
\<close>

theorem clean_numerical_data_billing_range:
  assumes "clean_numerical_data st = Inr st'"
  shows "\<exists>c xs c' xs'.
           get_col (df st) ''Billing Amount'' = Inr c \<and> numeric_cells c = Inr xs \<and>
           get_col (df st') ''Billing Amount'' = Inr c' \<and> numeric_cells c' = Inr xs' \<and>
           length xs' = length xs \<and>
           in_range_or_absent 1 1000000 xs' \<and>
           (\<forall>i < length xs. \<forall>v. xs ! i = Some v \<longrightarrow> v < 0 \<longrightarrow> 1 \<le> - v \<longrightarrow> - v \<le> 1000000
                \<longrightarrow> xs' ! i = Some (- v))"
proof -
  from assms obtain ac ages bc bills rc rooms where
    b: "get_col (df st) ''Billing Amount'' = Inr bc" "numeric_cells bc = Inr bills" and
    d: "df st' = set_col (set_col (set_col (df st) ''Age'' (put_numeric ac (fst (clean_age ages))))
                  ''Billing Amount'' (put_numeric bc (fst (clean_billing bills))))
                  ''Room Number'' (put_numeric rc (fst (clean_room rooms)))"
    by (rule clean_numerical_data_Inr)
  let ?xs' = "map billing_cell bills"
  have g: "get_col (df st') ''Billing Amount'' = Inr (put_numeric bc ?xs')"
    by (simp add: d get_col_set_col_other get_col_set_col_same clean_billing_cells)
  have n: "numeric_cells (put_numeric bc ?xs') = Inr ?xs'"
    using b(2) by (rule numeric_cells_put) (simp add: billing_cell_def)
  have r: "in_range_or_absent 1 1000000 ?xs'"
    using billing_cell_range by (simp add: in_range_or_absent_def list_all_iff)
  have f: "\<forall>i < length bills. \<forall>v. bills ! i = Some v \<longrightarrow> v < 0 \<longrightarrow> 1 \<le> - v \<longrightarrow> - v \<le> 1000000
                \<longrightarrow> ?xs' ! i = Some (- v)"
    by (auto simp: billing_cell_def Let_def)
  show ?thesis using b g n r f by auto
qed

text \<open>The theorem at the example frame: -500 becomes 500, 2000000 is capped, 0.5 is made
  missing, and all three rows are still there.\<close>

theorem clean_numerical_data_billing_range_witness:
  "\<exists>st' xs'. clean_numerical_data (load_data numeric_example) = Inr st' \<and>
      get_col (df st') ''Billing Amount'' = Inr (FloatCol xs') \<and>
      length xs' = 3 \<and> in_range_or_absent 1 1000000 xs' \<and> xs' ! 0 = Some 500"
proof -
  let ?st = "load_data numeric_example"
  obtain st' where h: "clean_numerical_data ?st = Inr st'"
    and g': "get_col (df st') ''Billing Amount'' = Inr (FloatCol [Some 500, Some 1000000, None])"
    using numeric_example_cleaned by (simp add: get_col_def)
  have g0: "get_col (df ?st) ''Billing Amount'' = Inr (FloatCol [Some (-500), Some 2000000, Some (1/2)])"
    by (simp add: load_data_def numeric_example_def get_col_def)
  from clean_numerical_data_billing_range [OF h] obtain c xs c' xs' where
    t: "get_col (df ?st) ''Billing Amount'' = Inr c" "numeric_cells c = Inr xs"
       "get_col (df st') ''Billing Amount'' = Inr c'" "numeric_cells c' = Inr xs'"
       "length xs' = length xs" "in_range_or_absent 1 1000000 xs'"
       "\<forall>i < length xs. \<forall>v. xs ! i = Some v \<longrightarrow> v < 0 \<longrightarrow> 1 \<le> - v \<longrightarrow> - v \<le> 1000000
                \<longrightarrow> xs' ! i = Some (- v)"
    by blast
  from t(1,2) g0 have xs: "xs = [Some (-500), Some 2000000, Some (1/2)]"
    by (auto simp: numeric_cells_def)
  from t(3,4) g' have c': "c' = FloatCol xs'"
    by (auto simp: numeric_cells_def)
  from t(7) xs have "xs' ! 0 = Some 500" by simp
  with h t(3,5,6) xs c' show ?thesis by auto
qed

subsection \<open>Name normalisation\<close>

text \<open>
  Claim C3, as the specification states it: the Name value \<^verbatim>\<open>jOHN o'BRIEN-smith\<close> is
  mapped to exactly \<^verbatim>\<open>John O'Brien-Smith\<close>. It is not: \<^verbatim>\<open>str.capitalize\<close>
  lower-cases every character after the first of a hyphen segment, so the \<open>B\<close> after the
  apostrophe comes out in lower case.
\<close>

theorem fix_name_formatting_obrien_counterexample:
  "fix_name_formatting (Some (''jOHN o'' @ [CHR 0x27] @ ''BRIEN-smith''))
     \<noteq> Some (''John O'' @ [CHR 0x27] @ ''Brien-Smith'')"
  by code_simp

text \<open>
  Claim C3, amended: the Name value \<^verbatim>\<open>jOHN o'BRIEN-smith\<close> is mapped to exactly
  \<^verbatim>\<open>John O'brien-Smith\<close>: the parts between white space are split again on hyphens,
  each segment is capitalised on its own (first character upper case, all others lower case)
  and the segments are joined again with a hyphen.
\<close>

theorem fix_name_formatting_obrien:
  "fix_name_formatting (Some (''jOHN o'' @ [CHR 0x27] @ ''BRIEN-smith''))
     = Some (''John O'' @ [CHR 0x27] @ ''brien-Smith'')"
  by code_simp

subsection \<open>Date repair and derived features\<close>


lemma in_columns_iff: "name \<in> set (columns d) \<longleftrightarrow> map_of d name \<noteq> None"
  by (simp add: columns_def map_of_eq_None_iff)

lemma columns_set_col: "set (columns (set_col d n c)) = insert n (set (columns d))"
  by (induction d n c rule: set_col.induct) (auto simp: columns_def)

lemma df_add_strategy [simp]: "df (add_strategy s st) = df st"
  by (simp add: add_strategy_def)






lemma los_days_Inl_iff:
  "los_days dis adm = Inl e \<longleftrightarrow> list_ex overflow_cell (zip dis adm) \<and> e = OverflowError"
  by (auto simp: los_days_def)

















lemma feature_length_of_stay_df:
  assumes "feature_length_of_stay st = Inr st'"
  shows "df st' = df st \<or> (\<exists>c. df st' = set_col (df st) ''Length_of_Stay'' c)"
  using assms
  by (auto simp: feature_length_of_stay_def bind_result_Inr split: if_splits)

lemma feature_age_group_Inr:
  assumes "feature_age_group st = Inr st'" "''Age'' \<in> set (columns (df st))"
  shows "\<exists>c ages. get_col (df st) ''Age'' = Inr c \<and> numeric_cells c = Inr ages \<and>
           df st' = set_col (df st) ''Age_Group'' (ObjectCol (map (case_option None cut_age) ages))"
  using assms
  by (auto simp: feature_age_group_def bind_result_Inr)


lemma feature_billing_category_df:
  assumes "feature_billing_category st = Inr st'"
  shows "df st' = df st \<or> (\<exists>c. df st' = set_col (df st) ''Billing_Category'' c)"
proof (cases "''Billing Amount'' \<in> set (columns (df st))")
  case False
  with assms show ?thesis by (simp add: feature_billing_category_def)
next
  case True
  with assms obtain c bills where
    r: "(case (quantile (1/4) bills, quantile (1/2) bills, quantile (3/4) bills) of
            (Some q25, Some q50, Some q75) \<Rightarrow>
              if 0 < q25 \<and> q25 < q50 \<and> q50 < q75
              then Inr (add_strategy CreatedBillingCategory
                          (st\<lparr>df := set_col (df st) ''Billing_Category''
                                        (ObjectCol (map (\<lambda>x. case x of None \<Rightarrow> None
                                                           | Some v \<Rightarrow> cut_billing q25 q50 q75 v)
                                                      bills))\<rparr>))
              else Inl ValueError
          | _ \<Rightarrow> Inl ValueError) = Inr st'"
    by (auto simp: feature_billing_category_def bind_result_Inr)
  then show ?thesis
    by (cases "quantile (1/4) bills"; cases "quantile (1/2) bills"; cases "quantile (3/4) bills")
       (auto split: if_splits)
qed

lemma generate_ml_ready_features_Inr:
  assumes "generate_ml_ready_features st = Inr st'"
  obtains st1 st2 where "feature_length_of_stay st = Inr st1" "feature_age_group st1 = Inr st2"
    "feature_billing_category st2 = Inr st'"
  using assms by (auto simp: generate_ml_ready_features_def bind_result_Inr)

lemma clean_age_cells:
  "fst (clean_age xs) = map (\<lambda>x. if holds (\<lambda>v. v < 0 \<or> v > 120) x then None else x) xs"
proof (cases "count_true (cmp_mask (\<lambda>v. v < 0 \<or> v > 120) xs) > 0")
  case True
  then show ?thesis by (simp add: clean_age_def Let_def assign_where_cmp)
next
  case False
  then have "count_true (map (holds (\<lambda>v. v < 0 \<or> v > 120)) xs) = 0"
    by (simp add: cmp_mask_holds)
  from map_if_none [OF this, of "\<lambda>_. None"] False show ?thesis
    by (simp add: clean_age_def Let_def)
qed


lemma feature_example_generate:
  "generate_ml_ready_features feature_example_fixed = Inr feature_example_done"
  by code_simp

lemma calendar_dates:
  "timestamp 2024 5 10 = 1715299200000000000" "timestamp 2024 5 1 = 1714521600000000000"
  "timestamp 1700 1 1 = - 8520336000000000000" "timestamp 2262 1 1 = 9214646400000000000"
  by (simp_all add: timestamp_def days_from_civil_def Let_def)









text \<open>
  Claim C10: the derived Age_Group is missing whenever the Age is missing, equal to 0 or
  greater than 100, because the bins are (0, 18], (18, 35], (35, 50], (50, 65] and (65, 100];
  in particular an age above 100 and up to 120, which the numeric range rule leaves in
  place, gets no group.
\<close>

theorem age_group_absent_outside_bins:
  assumes "generate_ml_ready_features st = Inr st'" "''Age'' \<in> set (columns (df st))"
  shows "\<exists>c ages groups.
           get_col (df st) ''Age'' = Inr c \<and> numeric_cells c = Inr ages \<and>
           get_col (df st') ''Age_Group'' = Inr (ObjectCol groups) \<and>
           length groups = length ages \<and>
           (\<forall>i < length ages.
              (ages ! i = None \<or> ages ! i = Some 0 \<or> (\<exists>v. ages ! i = Some v \<and> v > 100)
                 \<longrightarrow> groups ! i = None) \<and>
              (\<forall>v. ages ! i = Some v \<longrightarrow>
                 (groups ! i = Some ''Child'' \<longleftrightarrow> 0 < v \<and> v \<le> 18) \<and>
                 (groups ! i = Some ''Young_Adult'' \<longleftrightarrow> 18 < v \<and> v \<le> 35) \<and>
                 (groups ! i = Some ''Adult'' \<longleftrightarrow> 35 < v \<and> v \<le> 50) \<and>
                 (groups ! i = Some ''Middle_Age'' \<longleftrightarrow> 50 < v \<and> v \<le> 65) \<and>
                 (groups ! i = Some ''Senior'' \<longleftrightarrow> 65 < v \<and> v \<le> 100)) \<and>
              (\<forall>v. ages ! i = Some v \<longrightarrow> 100 < v \<longrightarrow> v \<le> 120 \<longrightarrow>
                 fst (clean_age ages) ! i = Some v))"
proof -
  from assms(1) obtain st1 st2 where
    s1: "feature_length_of_stay st = Inr st1" and
    s2: "feature_age_group st1 = Inr st2" and
    s3: "feature_billing_category st2 = Inr st'"
    by (rule generate_ml_ready_features_Inr)
  from feature_length_of_stay_df [OF s1]
  have a1: "get_col (df st1) ''Age'' = get_col (df st) ''Age''"
    by (auto simp: get_col_set_col_other)
  from feature_length_of_stay_df [OF s1] assms(2)
  have in1: "''Age'' \<in> set (columns (df st1))"
    by (auto simp: columns_set_col)
  from feature_age_group_Inr [OF s2 in1] obtain c ages where
    c: "get_col (df st1) ''Age'' = Inr c" "numeric_cells c = Inr ages" and
    d2: "df st2 = set_col (df st1) ''Age_Group'' (ObjectCol (map (case_option None cut_age) ages))"
    by blast
  let ?groups = "map (case_option None cut_age) ages"
  from feature_billing_category_df [OF s3] d2
  have g: "get_col (df st') ''Age_Group'' = Inr (ObjectCol ?groups)"
    by (auto simp: get_col_set_col_other get_col_set_col_same)
  have p: "\<forall>i < length ages.
              (ages ! i = None \<or> ages ! i = Some 0 \<or> (\<exists>v. ages ! i = Some v \<and> v > 100)
                 \<longrightarrow> ?groups ! i = None) \<and>
              (\<forall>v. ages ! i = Some v \<longrightarrow>
                 (?groups ! i = Some ''Child'' \<longleftrightarrow> 0 < v \<and> v \<le> 18) \<and>
                 (?groups ! i = Some ''Young_Adult'' \<longleftrightarrow> 18 < v \<and> v \<le> 35) \<and>
                 (?groups ! i = Some ''Adult'' \<longleftrightarrow> 35 < v \<and> v \<le> 50) \<and>
                 (?groups ! i = Some ''Middle_Age'' \<longleftrightarrow> 50 < v \<and> v \<le> 65) \<and>
                 (?groups ! i = Some ''Senior'' \<longleftrightarrow> 65 < v \<and> v \<le> 100)) \<and>
              (\<forall>v. ages ! i = Some v \<longrightarrow> 100 < v \<longrightarrow> v \<le> 120 \<longrightarrow>
                 fst (clean_age ages) ! i = Some v)"
    by (auto simp: cut_age_def clean_age_cells holds_def)
  show ?thesis
    using c a1 g p by (intro exI [of _ c] exI [of _ ages] exI [of _ ?groups]) simp
qed

text \<open>The theorem at the example frame: the ages 110, missing and 0 get no group.\<close>

theorem age_group_absent_outside_bins_witness:
  "\<exists>st' groups.
     generate_ml_ready_features feature_example_fixed = Inr st' \<and>
     ''Age'' \<in> set (columns (df feature_example_fixed)) \<and>
     get_col (df st') ''Age_Group'' = Inr (ObjectCol groups) \<and>
     groups ! 0 = None \<and> groups ! 1 = None \<and> groups ! 2 = None"
proof -
  have a: "''Age'' \<in> set (columns (df feature_example_fixed))"
    by (simp add: feature_example_fixed_def ml_load_data_def columns_def)
  have g0: "get_col (df feature_example_fixed) ''Age'' = Inr (FloatCol [Some 110, None, Some 0, Some 30])"
    by (simp add: feature_example_fixed_def ml_load_data_def get_col_def)
  from age_group_absent_outside_bins [OF feature_example_generate a] obtain c ages groups where
    t: "get_col (df feature_example_fixed) ''Age'' = Inr c" "numeric_cells c = Inr ages"
       "get_col (df feature_example_done) ''Age_Group'' = Inr (ObjectCol groups)"
       "\<forall>i < length ages.
              (ages ! i = None \<or> ages ! i = Some 0 \<or> (\<exists>v. ages ! i = Some v \<and> v > 100)
                 \<longrightarrow> groups ! i = None)"
    by (elim exE conjE) (rule that, assumption+, simp)
  from t(1,2) g0 have ages: "ages = [Some 110, None, Some 0, Some 30]"
    by (auto simp: numeric_cells_def)
  from t(4) have "groups ! 0 = None" "groups ! 1 = None" "groups ! 2 = None"
    unfolding ages by (simp_all add: nth_Cons')
  with feature_example_generate a t(3) show ?thesis
    by (intro exI [of _ feature_example_done] exI [of _ groups]) simp
qed

subsection \<open>Categorical validation\<close>

lemma assign_where_map:
  "assign_where (map g xs) v xs = map (\<lambda>x. if g x then v else x) xs"
  by (simp add: assign_where_def zip_map_self)

lemma assign_where_map_if:
  "(if count_true (map g xs) > 0 then assign_where (map g xs) v xs else xs)
     = map (\<lambda>x. if g x then v else x) xs"
  using map_if_none [of g xs "\<lambda>_. v"] by (auto simp: assign_where_map)

lemma literal_nan_mask_eq:
  "literal_nan_mask xs = map (\<lambda>x. case x of None \<Rightarrow> False | Some s \<Rightarrow> literal_nan s) xs"
  by (auto simp: literal_nan_mask_def split: option.splits)

lemma count_true_option:
  "count_true (map (\<lambda>x. case x of None \<Rightarrow> False | Some s \<Rightarrow> P s) xs) = count_where P xs"
  by (simp add: count_true_map count_where_def)

lemma gender_prepass_object:
  "gender_prepass st (ObjectCol xs) =
     (if count_where literal_nan xs > 0
      then add_issue (FixedLiteralNan (count_where literal_nan xs)) st else st,
      ObjectCol (map prepass_cell xs))"
proof -
  let ?g = "\<lambda>x. case x of None \<Rightarrow> False | Some s \<Rightarrow> literal_nan s"
  have c: "map (\<lambda>x. if ?g x then None else x) xs = map prepass_cell xs"
    by (auto simp: prepass_cell_def split: option.splits)
  have z: "count_where literal_nan xs = 0 \<Longrightarrow> map prepass_cell xs = xs"
    using map_if_none [of ?g xs "\<lambda>_. None"] c by (simp add: count_true_option)
  show ?thesis
    using z by (auto simp: gender_prepass_def Let_def literal_nan_mask_eq count_true_option
                     assign_where_map c)
qed

lemma literal_nan_invalid: "literal_nan s \<Longrightarrow> s \<notin> set valid_genders"
  by (auto simp: literal_nan_def valid_genders_def)

lemma invalid_gender_mask_object:
  "invalid_gender_mask (ObjectCol ys) =
     map (\<lambda>x. case x of None \<Rightarrow> False | Some s \<Rightarrow> s \<notin> set valid_genders) ys"
  by (auto simp: invalid_gender_mask_def split: option.splits)

lemma gender_cell_prepass: "gender_cell (prepass_cell x) = gender_cell x"
  using literal_nan_invalid by (auto simp: gender_cell_def prepass_cell_def split: option.splits)

lemma count_where_prepass:
  "count_where (\<lambda>s. s \<notin> set valid_genders) (map prepass_cell xs)
     = count_where (\<lambda>s. \<not> literal_nan s \<and> s \<notin> set valid_genders) xs"
  by (induction xs) (auto simp: count_where_def prepass_cell_def split: option.splits)

lemma clean_gender_data_object:
  assumes "map_of (df st) ''Gender'' = Some (ObjectCol xs)"
  defines "k \<equiv> count_where literal_nan xs"
  defines "m \<equiv> count_where (\<lambda>s. \<not> literal_nan s \<and> s \<notin> set valid_genders) xs"
  shows "\<exists>st'. clean_gender_data st = Inr st' \<and>
           df st' = set_col (df st) ''Gender'' (ObjectCol (map gender_cell xs)) \<and>
           issues_fixed st' = issues_fixed st @ (if k > 0 then [FixedLiteralNan k] else [])
                                @ (if m > 0 then [ConvertedInvalidGender m] else [])"
proof -
  let ?inv = "\<lambda>x. case x of None \<Rightarrow> False | Some s \<Rightarrow> s \<notin> set valid_genders"
  let ?ys = "map prepass_cell xs"
  have cells: "map (\<lambda>x. if ?inv x then None else x) ?ys = map gender_cell xs"
  proof -
    have "(if ?inv (prepass_cell x) then None else prepass_cell x) = gender_cell x" for x
      using literal_nan_invalid
      by (auto simp: gender_cell_def prepass_cell_def split: option.splits)
    then show ?thesis by (simp add: o_def)
  qed
  have cnt: "count_true (map ?inv ?ys) = m"
    by (simp only: count_true_option count_where_prepass m_def)
  have zero: "map gender_cell xs = ?ys" if "m = 0"
  proof -
    from that cnt have "count_true (map ?inv ?ys) = 0" by simp
    from map_if_none [OF this, of "\<lambda>_. None"]
    have "map (\<lambda>x. if ?inv x then None else x) ?ys = ?ys" .
    then show ?thesis by (simp only: cells)
  qed
  have g: "get_col (df st) ''Gender'' = Inr (ObjectCol xs)"
    using assms(1) by (simp add: get_col_def)
  show ?thesis
  proof (cases "m > 0")
    case True
    then show ?thesis
      by (auto simp: clean_gender_data_def g bind_result_def gender_prepass_object Let_def
            invalid_gender_mask_object cnt null_where_def
            assign_where_map cells k_def add_issue_def simp del: map_map)
  next
    case False
    then have "map gender_cell xs = map prepass_cell xs" using zero by simp
    with False show ?thesis
      by (auto simp: clean_gender_data_def g bind_result_def gender_prepass_object Let_def
            invalid_gender_mask_object cnt k_def add_issue_def
            simp del: map_map map_eq_conv)
  qed
qed

lemma clean_blood_types_object:
  assumes "map_of (df st) ''Blood Type'' = Some (ObjectCol xs)"
  shows "\<exists>st'. clean_blood_types st = Inr st' \<and>
           map_of (df st') ''Blood Type'' = Some (ObjectCol (map blood_cell xs))"
proof -
  let ?inv = "\<lambda>x. case x of None \<Rightarrow> True | Some s \<Rightarrow> s \<notin> set valid_blood_types"
  have cells: "map (\<lambda>x. if ?inv x then Some ''Unknown'' else x) xs = map blood_cell xs"
    by (auto simp: blood_cell_def split: option.splits)
  have zero: "map blood_cell xs = xs" if "count_true (map ?inv xs) = 0"
    using map_if_none [OF that, of "\<lambda>_. Some ''Unknown''"] cells by simp
  have g: "get_col (df st) ''Blood Type'' = Inr (ObjectCol xs)"
    using assms(1) by (simp add: get_col_def)
  show ?thesis
    using zero assms
    by (auto simp: clean_blood_types_def g bind_result_def Let_def invalid_blood_mask_def
          mark_unknown_def assign_where_map cells map_of_set_col_same)
qed

text \<open>
  Claim C4, as the specification states it: in both validated columns a missing cell passes
  through the rule unchanged. In the Blood Type column it does not: the mask has no
  \<^verbatim>\<open>notna()\<close>, so a missing cell is written as \<^verbatim>\<open>Unknown\<close> and counted.
\<close>

theorem clean_blood_types_absent_counterexample:
  "clean_blood_types (load_data absent_blood_example) =
     Inr \<lparr>df = [(''Blood Type'', ObjectCol [Some ''Unknown'', Some ''A+''])],
          original_rows = 2, issues_fixed = [MarkedInvalidBlood 1]\<rparr>"
  by code_simp

text \<open>
  Claim C4, amended. Gender (accepted Male and Female, violations made missing): the rule
  makes missing exactly the cells that are present and outside the accepted set; a missing
  cell stays missing and an accepted value stays as it is. Blood Type (the eight standard
  codes, violations written as Unknown): the rule writes Unknown into every cell that is not
  an accepted code, the missing cells included; an accepted code stays as it is.
\<close>

theorem categorical_validation_cells:
  "(map_of (df st) ''Gender'' = Some (ObjectCol xs) \<longrightarrow>
      (\<exists>st' ys. clean_gender_data st = Inr st' \<and>
         map_of (df st') ''Gender'' = Some (ObjectCol ys) \<and> length ys = length xs \<and>
         (\<forall>i < length xs.
            (xs ! i = None \<longrightarrow> ys ! i = None) \<and>
            (\<forall>s. xs ! i = Some s \<longrightarrow>
               ys ! i = (if s \<in> set valid_genders then Some s else None))))) \<and>
   (map_of (df st) ''Blood Type'' = Some (ObjectCol zs) \<longrightarrow>
      (\<exists>st' ys. clean_blood_types st = Inr st' \<and>
         map_of (df st') ''Blood Type'' = Some (ObjectCol ys) \<and> length ys = length zs \<and>
         (\<forall>i < length zs.
            (zs ! i = None \<longrightarrow> ys ! i = Some ''Unknown'') \<and>
            (\<forall>s. zs ! i = Some s \<longrightarrow>
               ys ! i = (if s \<in> set valid_blood_types then Some s else Some ''Unknown'')))))"
proof (intro conjI impI)
  assume a: "map_of (df st) ''Gender'' = Some (ObjectCol xs)"
  from clean_gender_data_object [OF a] obtain st' where
    r: "clean_gender_data st = Inr st'"
       "df st' = set_col (df st) ''Gender'' (ObjectCol (map gender_cell xs))"
    by blast
  show "\<exists>st' ys. clean_gender_data st = Inr st' \<and>
         map_of (df st') ''Gender'' = Some (ObjectCol ys) \<and> length ys = length xs \<and>
         (\<forall>i < length xs.
            (xs ! i = None \<longrightarrow> ys ! i = None) \<and>
            (\<forall>s. xs ! i = Some s \<longrightarrow>
               ys ! i = (if s \<in> set valid_genders then Some s else None)))"
    apply (rule exI [of _ st'], rule exI [of _ "map gender_cell xs"])
    using r by (simp add: map_of_set_col_same gender_cell_def)
next
  assume a: "map_of (df st) ''Blood Type'' = Some (ObjectCol zs)"
  from clean_blood_types_object [OF a] obtain st' where
    r: "clean_blood_types st = Inr st'"
       "map_of (df st') ''Blood Type'' = Some (ObjectCol (map blood_cell zs))"
    by blast
  show "\<exists>st' ys. clean_blood_types st = Inr st' \<and>
         map_of (df st') ''Blood Type'' = Some (ObjectCol ys) \<and> length ys = length zs \<and>
         (\<forall>i < length zs.
            (zs ! i = None \<longrightarrow> ys ! i = Some ''Unknown'') \<and>
            (\<forall>s. zs ! i = Some s \<longrightarrow>
               ys ! i = (if s \<in> set valid_blood_types then Some s else Some ''Unknown'')))"
    apply (rule exI [of _ st'], rule exI [of _ "map blood_cell zs"])
    using r by (simp add: blood_cell_def)
qed

text \<open>The theorem at the example frame, which has both columns.\<close>

theorem categorical_validation_cells_witness:
  "map_of (df (load_data categorical_example)) ''Gender''
      = Some (ObjectCol [Some ''Male'', None, Some ''Other'', Some ''NaN'', Some ''Female'']) \<and>
   map_of (df (load_data categorical_example)) ''Blood Type''
      = Some (ObjectCol [Some ''A+'', None, Some ''C+'', Some ''O-'', Some ''AB-'']) \<and>
   (\<exists>st' ys. clean_gender_data (load_data categorical_example) = Inr st' \<and>
       map_of (df st') ''Gender'' = Some (ObjectCol ys) \<and>
       ys ! 0 = Some ''Male'' \<and> ys ! 1 = None \<and> ys ! 2 = None) \<and>
   (\<exists>st' ys. clean_blood_types (load_data categorical_example) = Inr st' \<and>
       map_of (df st') ''Blood Type'' = Some (ObjectCol ys) \<and>
       ys ! 0 = Some ''A+'' \<and> ys ! 1 = Some ''Unknown'' \<and> ys ! 2 = Some ''Unknown'')"
proof -
  let ?st = "load_data categorical_example"
  let ?xs = "[Some ''Male'', None, Some ''Other'', Some ''NaN'', Some ''Female'']"
  let ?zs = "[Some ''A+'', None, Some ''C+'', Some ''O-'', Some ''AB-'']"
  have g: "map_of (df ?st) ''Gender'' = Some (ObjectCol ?xs)"
    and b: "map_of (df ?st) ''Blood Type'' = Some (ObjectCol ?zs)"
    by (simp_all add: load_data_def categorical_example_def)
  note tg = categorical_validation_cells [of ?st ?xs ?zs, THEN conjunct1, THEN mp, OF g]
  note tb = categorical_validation_cells [of ?st ?xs ?zs, THEN conjunct2, THEN mp, OF b]
  from tg obtain st1 ys where
    r1: "clean_gender_data ?st = Inr st1" "map_of (df st1) ''Gender'' = Some (ObjectCol ys)"
        "\<forall>i < length ?xs.
            (?xs ! i = None \<longrightarrow> ys ! i = None) \<and>
            (\<forall>s. ?xs ! i = Some s \<longrightarrow>
               ys ! i = (if s \<in> set valid_genders then Some s else None))"
    by (elim conjE exE) (rule that, assumption+)
  from tb obtain st2 zs' where
    r2: "clean_blood_types ?st = Inr st2" "map_of (df st2) ''Blood Type'' = Some (ObjectCol zs')"
        "\<forall>i < length ?zs.
            (?zs ! i = None \<longrightarrow> zs' ! i = Some ''Unknown'') \<and>
            (\<forall>s. ?zs ! i = Some s \<longrightarrow>
               zs' ! i = (if s \<in> set valid_blood_types then Some s else Some ''Unknown''))"
    by (elim conjE exE) (rule that, assumption+)
  from r1(3) have y: "ys ! 0 = Some ''Male''" "ys ! 1 = None" "ys ! 2 = None"
    by (simp_all add: nth_Cons' valid_genders_def)
  from r2(3) have z: "zs' ! 0 = Some ''A+''" "zs' ! 1 = Some ''Unknown''" "zs' ! 2 = Some ''Unknown''"
    by (simp_all add: nth_Cons' valid_blood_types_def)
  have e1: "\<exists>st' ys. clean_gender_data ?st = Inr st' \<and>
       map_of (df st') ''Gender'' = Some (ObjectCol ys) \<and>
       ys ! 0 = Some ''Male'' \<and> ys ! 1 = None \<and> ys ! 2 = None"
    by (rule exI [of _ st1], rule exI [of _ ys]) (simp add: r1 y)
  have e2: "\<exists>st' ys. clean_blood_types ?st = Inr st' \<and>
       map_of (df st') ''Blood Type'' = Some (ObjectCol ys) \<and>
       ys ! 0 = Some ''A+'' \<and> ys ! 1 = Some ''Unknown'' \<and> ys ! 2 = Some ''Unknown''"
    by (rule exI [of _ st2], rule exI [of _ zs']) (simp add: r2 z)
  from g b e1 e2 show ?thesis by (intro conjI)
qed

text \<open>
  Claim C5, as the specification states it: every spelling of \<^verbatim>\<open>nan\<close>, in any letter
  case, \<^verbatim>\<open>NAN\<close> included, is converted by the pre-pass and counted. The pre-pass
  does not match \<^verbatim>\<open>NAN\<close>: no count of literal markers is reported, and the cell is
  made missing by the accepted-set check, which counts it as an invalid gender.
\<close>

theorem gender_nan_uppercase_counterexample:
  "clean_gender_data (load_data uppercase_nan_example) =
     Inr \<lparr>df = [(''Gender'', ObjectCol [None, Some ''Male''])],
          original_rows = 2, issues_fixed = [ConvertedInvalidGender 1]\<rparr>"
  by code_simp

lemma lower_nan_invalid: "lower s = ''nan'' \<Longrightarrow> s \<notin> set valid_genders"
  by (auto simp: valid_genders_def lower_def to_lower_def ascii_upper_def ascii_lower_def)

lemma missing_count_fillna: "missing_count (ObjectCol (fillna (Some m) xs)) = 0"
  by (auto simp: missing_count_def isna_def fillna_def count_true_map filter_empty_conv
           split: option.splits)

lemma literal_nan_spellings:
  "literal_nan s \<longleftrightarrow>
     s \<in> set [''nan'', ''Nan'', ''naN'', ''NaN''] \<or>
     (\<exists>t \<in> set [''nan'', ''Nan'', ''naN'', ''NaN'']. s = t @ [CHR 0x0A])"
  by (auto simp: literal_nan_def split: list.splits)

text \<open>
  Claim C5, amended. Before the accepted-set check on an object Gender column, every cell
  whose text is \<^verbatim>\<open>nan\<close>, \<^verbatim>\<open>Nan\<close>, \<^verbatim>\<open>naN\<close> or \<^verbatim>\<open>NaN\<close> (the middle
  letter in lower case; one final line feed is allowed) is made missing, and their count is
  reported when it is not zero. Any other spelling, such as \<^verbatim>\<open>NAN\<close>, is not touched by
  the pre-pass but is made missing by the accepted-set check and counted there. Either way the
  cell ends missing, and a mode fill of the column leaves no missing cell.
\<close>

theorem gender_literal_nan_prepass:
  assumes "map_of (df st) ''Gender'' = Some (ObjectCol xs)"
  shows "\<exists>st' ys.
           clean_gender_data st = Inr st' \<and>
           map_of (df st') ''Gender'' = Some (ObjectCol ys) \<and> length ys = length xs \<and>
           snd (gender_prepass st (ObjectCol xs)) =
             ObjectCol (map (\<lambda>x. case x of None \<Rightarrow> None
                                 | Some s \<Rightarrow> if literal_nan s then None else Some s) xs) \<and>
           issues_fixed st' =
             issues_fixed st
               @ (if count_where literal_nan xs > 0
                  then [FixedLiteralNan (count_where literal_nan xs)] else [])
               @ (if count_where (\<lambda>s. \<not> literal_nan s \<and> s \<notin> set valid_genders) xs > 0
                  then [ConvertedInvalidGender
                          (count_where (\<lambda>s. \<not> literal_nan s \<and> s \<notin> set valid_genders) xs)]
                  else []) \<and>
           (\<forall>i < length xs. \<forall>s. xs ! i = Some s \<longrightarrow> lower s = ''nan'' \<longrightarrow> ys ! i = None) \<and>
           (\<forall>c'. mode_fill (ObjectCol ys) = Some c' \<longrightarrow> missing_count c' = 0) \<and>
           (\<forall>s. literal_nan s \<longleftrightarrow>
              s \<in> set [''nan'', ''Nan'', ''naN'', ''NaN''] \<or>
              (\<exists>t \<in> set [''nan'', ''Nan'', ''naN'', ''NaN'']. s = t @ [CHR 0x0A]))"
proof -
  from clean_gender_data_object [OF assms] obtain st' where
    r: "clean_gender_data st = Inr st'"
       "df st' = set_col (df st) ''Gender'' (ObjectCol (map gender_cell xs))"
       "issues_fixed st' =
             issues_fixed st
               @ (if count_where literal_nan xs > 0
                  then [FixedLiteralNan (count_where literal_nan xs)] else [])
               @ (if count_where (\<lambda>s. \<not> literal_nan s \<and> s \<notin> set valid_genders) xs > 0
                  then [ConvertedInvalidGender
                          (count_where (\<lambda>s. \<not> literal_nan s \<and> s \<notin> set valid_genders) xs)]
                  else [])"
    by blast
  have p: "snd (gender_prepass st (ObjectCol xs)) =
             ObjectCol (map (\<lambda>x. case x of None \<Rightarrow> None
                                 | Some s \<Rightarrow> if literal_nan s then None else Some s) xs)"
    by (simp add: gender_prepass_object prepass_cell_def [abs_def])
  have n: "\<forall>i < length xs. \<forall>s. xs ! i = Some s \<longrightarrow> lower s = ''nan'' \<longrightarrow>
             map gender_cell xs ! i = None"
    using lower_nan_invalid by (simp add: gender_cell_def)
  have m: "\<forall>c'. mode_fill (ObjectCol (map gender_cell xs)) = Some c' \<longrightarrow> missing_count c' = 0"
    by (auto simp: mode_fill_def missing_count_fillna)
  show ?thesis
    apply (rule exI [of _ st'], rule exI [of _ "map gender_cell xs"])
    using r p n m literal_nan_spellings by (simp add: map_of_set_col_same)
qed

text \<open>The theorem at the example frame: the cell \<^verbatim>\<open>NaN\<close> is counted by the pre-pass,
  the cell \<^verbatim>\<open>Other\<close> by the accepted-set check, and both end missing.\<close>

theorem gender_literal_nan_prepass_witness:
  "\<exists>st' ys.
     clean_gender_data (load_data categorical_example) = Inr st' \<and>
     map_of (df st') ''Gender'' = Some (ObjectCol ys) \<and>
     ys ! 2 = None \<and> ys ! 3 = None \<and>
     issues_fixed st' = [FixedLiteralNan 1, ConvertedInvalidGender 1]"
proof -
  let ?st = "load_data categorical_example"
  let ?xs = "[Some ''Male'', None, Some ''Other'', Some ''NaN'', Some ''Female'']"
  have g: "map_of (df ?st) ''Gender'' = Some (ObjectCol ?xs)"
    by (simp add: load_data_def categorical_example_def)
  have k: "count_where literal_nan ?xs = 1"
    by code_simp
  have m: "count_where (\<lambda>s. \<not> literal_nan s \<and> s \<notin> set valid_genders) ?xs = 1"
    by code_simp
  have l: "lower ''NaN'' = ''nan''"
    by code_simp
  from gender_literal_nan_prepass [OF g] obtain st' ys where
    r: "clean_gender_data ?st = Inr st'" "map_of (df st') ''Gender'' = Some (ObjectCol ys)"
       "issues_fixed st' =
             issues_fixed ?st
               @ (if count_where literal_nan ?xs > 0
                  then [FixedLiteralNan (count_where literal_nan ?xs)] else [])
               @ (if count_where (\<lambda>s. \<not> literal_nan s \<and> s \<notin> set valid_genders) ?xs > 0
                  then [ConvertedInvalidGender
                          (count_where (\<lambda>s. \<not> literal_nan s \<and> s \<notin> set valid_genders) ?xs)]
                  else [])"
       "\<forall>i < length ?xs. \<forall>s. ?xs ! i = Some s \<longrightarrow> lower s = ''nan'' \<longrightarrow> ys ! i = None"
    by (elim exE conjE) (rule that, assumption+)
  from r(4) l have y3: "ys ! 3 = None" by simp
  from clean_gender_data_object [OF g] r(1,2)
  have y2: "ys ! 2 = None"
    by (auto simp: map_of_set_col_same gender_cell_def valid_genders_def)
  from r(3) have i: "issues_fixed st' = [FixedLiteralNan 1, ConvertedInvalidGender 1]"
    unfolding k m by (simp add: load_data_def)
  show ?thesis
    by (rule exI [of _ st'], rule exI [of _ ys]) (simp add: r(1,2) y2 y3 i)
qed

subsection \<open>Missing columns\<close>

lemma columns_drop_duplicates: "columns (drop_duplicates d) = columns d"
  by (simp add: drop_duplicates_def columns_def case_prod_beta o_def)

lemma get_col_missing: "name \<notin> set (columns d) \<Longrightarrow> get_col d name = Inl (KeyError name)"
  by (simp add: get_col_def in_columns_iff)

lemma map_of_missing: "name \<notin> set (columns d) \<Longrightarrow> map_of d name = None"
  by (simp add: in_columns_iff)

lemma remove_duplicates_columns:
  "\<exists>st'. remove_duplicates st = Inr st' \<and> columns (df st') = columns (df st)"
  by (simp add: remove_duplicates_def Let_def columns_drop_duplicates)

lemma get_col_Inr_in: "get_col d name = Inr c \<Longrightarrow> name \<in> set (columns d)"
  by (auto simp: get_col_def in_columns_iff split: option.splits)

lemma get_col_Inl: "get_col d name = Inl e \<Longrightarrow> e = KeyError name \<and> name \<notin> set (columns d)"
  by (auto simp: get_col_def in_columns_iff split: option.splits)

lemma str_accessor_Inl: "str_accessor c = Inl e \<Longrightarrow> e = DtypeError"
  by (auto simp: str_accessor_def split: column.splits)

lemma reads_okI:
  assumes "\<And>st st'. rule st = Inr st' \<Longrightarrow> set cols \<subseteq> set (columns (df st))"
    and "\<And>st st'. rule st = Inr st' \<Longrightarrow> set (columns (df st')) = set (columns (df st))"
    and "\<And>st c. rule st = Inl (KeyError c) \<Longrightarrow> c \<in> set cols \<and> c \<notin> set (columns (df st))"
  shows "reads_ok rule cols"
  unfolding reads_ok_def using assms by blast

lemma reads_ok_bind:
  assumes f: "reads_ok f xs" and g: "reads_ok g ys"
  shows "reads_ok (\<lambda>st. bind_result (f st) g) (xs @ ys)"
proof (rule reads_okI)
  fix st st' assume r: "bind_result (f st) g = Inr st'"
  then obtain st1 where 1: "f st = Inr st1" and 2: "g st1 = Inr st'"
    by (cases "f st") (simp_all add: bind_result_def)
  from f 1 have a: "set xs \<subseteq> set (columns (df st))" "set (columns (df st1)) = set (columns (df st))"
    unfolding reads_ok_def by blast+
  from g 2 have b: "set ys \<subseteq> set (columns (df st1))" "set (columns (df st')) = set (columns (df st1))"
    unfolding reads_ok_def by blast+
  from a b show "set (xs @ ys) \<subseteq> set (columns (df st))" by simp
  from a b show "set (columns (df st')) = set (columns (df st))" by simp
next
  fix st c assume r: "bind_result (f st) g = Inl (KeyError c)"
  show "c \<in> set (xs @ ys) \<and> c \<notin> set (columns (df st))"
  proof (cases "f st")
    case (Inl e)
    with r have "f st = Inl (KeyError c)" by (simp add: bind_result_def)
    with f show ?thesis unfolding reads_ok_def by auto
  next
    case (Inr st1)
    with r have 2: "g st1 = Inl (KeyError c)" by (simp add: bind_result_def)
    from f Inr have a: "set (columns (df st1)) = set (columns (df st))"
      unfolding reads_ok_def by blast
    from g 2 have "c \<in> set ys \<and> c \<notin> set (columns (df st1))" unfolding reads_ok_def by blast
    with a show ?thesis by simp
  qed
qed

lemma reads_ok_remove_duplicates: "reads_ok remove_duplicates []"
  by (rule reads_okI) (auto simp: remove_duplicates_def Let_def columns_drop_duplicates split: if_splits)

lemmas rule_simps = bind_result_def Let_def columns_set_col get_col_def in_columns_iff
  str_accessor_def numeric_cells_def datetime_cells_def map_of_set_col_other map_of_set_col_same

lemma reads_ok_clean_names: "reads_ok clean_names [''Name'']"
  by (rule reads_okI)
     (auto simp: clean_names_def rule_simps
           split: sum.splits option.splits if_splits column.splits)


lemma reads_ok_clean_gender_data: "reads_ok clean_gender_data [''Gender'']"
  by (rule reads_okI)
     (auto simp: clean_gender_data_def gender_prepass_def rule_simps
           split: sum.splits option.splits if_splits column.splits prod.splits)

lemma reads_ok_clean_blood_types: "reads_ok clean_blood_types [''Blood Type'']"
  by (rule reads_okI)
     (auto simp: clean_blood_types_def rule_simps
           split: sum.splits option.splits if_splits column.splits)

lemma reads_ok_clean_hospital_names: "reads_ok clean_hospital_names [''Hospital'']"
  by (rule reads_okI)
     (auto simp: clean_hospital_names_def rule_simps
           split: sum.splits option.splits if_splits column.splits)

lemma reads_ok_convert_date_column: "reads_ok (convert_date_column env col) [col]"
  by (rule reads_okI)
     (auto simp: convert_date_column_def rule_simps
           split: sum.splits option.splits if_splits column.splits)

lemma reads_ok_null_out_end: "reads_ok null_out_end []"
  by (rule reads_okI)
     (auto simp: null_out_end_def rule_simps
           split: sum.splits option.splits if_splits column.splits)


lemma reads_ok_clean_dates: "reads_ok (clean_dates env) [''Date of Admission'', ''Discharge Date'']"
proof -
  have "reads_ok (\<lambda>st. bind_result (convert_date_column env ''Discharge Date'' st) null_out_end)
          ([''Discharge Date''] @ [])"
    by (rule reads_ok_bind [OF reads_ok_convert_date_column reads_ok_null_out_end])
  hence "reads_ok (\<lambda>st. bind_result (convert_date_column env ''Date of Admission'' st)
            (\<lambda>st1. bind_result (convert_date_column env ''Discharge Date'' st1) null_out_end))
          ([''Date of Admission''] @ [''Discharge Date''] @ [])"
    by (rule reads_ok_bind [OF reads_ok_convert_date_column])
  moreover have "clean_dates env = (\<lambda>st. bind_result (convert_date_column env ''Date of Admission'' st)
            (\<lambda>st1. bind_result (convert_date_column env ''Discharge Date'' st1) null_out_end))"
    by (rule ext) (simp add: clean_dates_def)
  ultimately show ?thesis by simp
qed

lemma reads_ok_clean_numerical_data:
  "reads_ok clean_numerical_data [''Age'', ''Billing Amount'', ''Room Number'']"
  by (rule reads_okI)
     (auto simp: clean_numerical_data_def rule_simps case_prod_beta
           split: sum.splits option.splits if_splits column.splits)

lemma reads_ok_clean_categorical_data:
  "reads_ok (clean_categorical_data env)
     [''Medical Condition'', ''Admission Type'', ''Test Results'', ''Insurance Provider'',
      ''Medication'']"
  by (rule reads_okI)
     (auto simp: clean_categorical_data_def rule_simps
           split: sum.splits option.splits if_splits)

lemma map_of_missing_summary:
  "map_of (missing_summary d) name = Some n \<Longrightarrow> name \<in> set (columns d)"
proof -
  assume "map_of (missing_summary d) name = Some n"
  hence "(name, n) \<in> set (missing_summary d)" by (rule map_of_SomeD)
  thus ?thesis by (force simp: missing_summary_def columns_def)
qed

lemma reads_ok_handle_missing_values: "reads_ok handle_missing_values []"
  by (rule reads_okI)
     (auto simp: handle_missing_values_def rule_simps fill_median_def
           dest: map_of_missing_summary
           split: sum.splits option.splits if_splits column.splits)

lemma reads_ok_detect_outliers: "reads_ok detect_outliers []"
  by (rule reads_okI) (auto simp: detect_outliers_def)


lemma reads_ok_cleaning_steps:
  "reads_ok
     (\<lambda>st. bind_result (remove_duplicates st) (\<lambda>st.
            bind_result (clean_names st) (\<lambda>st.
            bind_result (clean_gender_data st) (\<lambda>st.
            bind_result (clean_blood_types st) (\<lambda>st.
            bind_result (clean_dates env st) (\<lambda>st.
            bind_result (clean_hospital_names st) (\<lambda>st.
            bind_result (clean_numerical_data st) (\<lambda>st.
            bind_result (clean_categorical_data env st) (\<lambda>st.
            bind_result (handle_missing_values st) detect_outliers)))))))))
     [''Name'', ''Gender'', ''Blood Type'', ''Date of Admission'', ''Discharge Date'', ''Hospital'',
      ''Age'', ''Billing Amount'', ''Room Number'', ''Medical Condition'', ''Admission Type'',
      ''Test Results'', ''Insurance Provider'', ''Medication'']"
proof -
  note b = reads_ok_bind
  have "reads_ok
     (\<lambda>st. bind_result (remove_duplicates st) (\<lambda>st.
            bind_result (clean_names st) (\<lambda>st.
            bind_result (clean_gender_data st) (\<lambda>st.
            bind_result (clean_blood_types st) (\<lambda>st.
            bind_result (clean_dates env st) (\<lambda>st.
            bind_result (clean_hospital_names st) (\<lambda>st.
            bind_result (clean_numerical_data st) (\<lambda>st.
            bind_result (clean_categorical_data env st) (\<lambda>st.
            bind_result (handle_missing_values st) detect_outliers)))))))))
     ([] @ [''Name''] @ [''Gender''] @ [''Blood Type''] @ [''Date of Admission'', ''Discharge Date'']
      @ [''Hospital''] @ [''Age'', ''Billing Amount'', ''Room Number'']
      @ [''Medical Condition'', ''Admission Type'', ''Test Results'', ''Insurance Provider'',
         ''Medication''] @ [] @ [])"
    by (rule b [OF reads_ok_remove_duplicates b [OF reads_ok_clean_names
          b [OF reads_ok_clean_gender_data b [OF reads_ok_clean_blood_types
          b [OF reads_ok_clean_dates b [OF reads_ok_clean_hospital_names
          b [OF reads_ok_clean_numerical_data b [OF reads_ok_clean_categorical_data
          b [OF reads_ok_handle_missing_values reads_ok_detect_outliers]]]]]]]]])
  thus ?thesis by simp
qed

lemma run_full_cleaning_reads:
  "(\<forall>st'. run_full_cleaning env d = Inr st' \<longrightarrow>
      set [''Name'', ''Gender'', ''Blood Type'', ''Date of Admission'', ''Discharge Date'', ''Hospital'',
           ''Age'', ''Billing Amount'', ''Room Number'', ''Medical Condition'', ''Admission Type'',
           ''Test Results'', ''Insurance Provider'', ''Medication''] \<subseteq> set (columns d) \<and> set (columns (df st')) = set (columns d)) \<and>
   (\<forall>c. run_full_cleaning env d = Inl (KeyError c) \<longrightarrow>
      c \<in> set [''Name'', ''Gender'', ''Blood Type'', ''Date of Admission'', ''Discharge Date'', ''Hospital'',
           ''Age'', ''Billing Amount'', ''Room Number'', ''Medical Condition'', ''Admission Type'',
           ''Test Results'', ''Insurance Provider'', ''Medication''] \<and> c \<notin> set (columns d))"
  using reads_ok_cleaning_steps [of env, unfolded reads_ok_def, rule_format, of "load_data d"]
  by (simp add: run_full_cleaning_def load_data_def)

lemma reads_ok_missing:
  assumes "reads_ok rule cols" and "c \<in> set cols" and "c \<notin> set (columns (df st))"
  shows "\<exists>e. rule st = Inl e"
proof (cases "rule st")
  case (Inl e) thus ?thesis by simp
next
  case (Inr st')
  with assms(1) have "set cols \<subseteq> set (columns (df st))" unfolding reads_ok_def by blast
  with assms(2,3) show ?thesis by blast
qed

lemma reads_ok_key:
  assumes "reads_ok rule cols" and "rule st = Inl (KeyError c)"
  shows "c \<in> set cols \<and> c \<notin> set (columns (df st))"
  using assms unfolding reads_ok_def by blast

text \<open>The later reads of a rule, when the earlier ones succeed.\<close>

lemma map_of_present: "name \<in> set (columns d) \<Longrightarrow> \<exists>c. map_of d name = Some c"
  by (simp add: in_columns_iff)

lemma clean_dates_discharge_missing:
  assumes a: "''Date of Admission'' \<in> set (columns (df st))"
    and m: "''Discharge Date'' \<notin> set (columns (df st))"
  shows "clean_dates env st = Inl (KeyError ''Discharge Date'')"
proof -
  from map_of_present [OF a] obtain c where c: "map_of (df st) ''Date of Admission'' = Some c" ..
  from m have n: "map_of (df st) ''Discharge Date'' = None" by (rule map_of_missing)
  show ?thesis
    by (simp add: clean_dates_def convert_date_column_def get_col_def bind_result_def Let_def
          c n map_of_set_col_other)
qed

lemma clean_numerical_data_billing_missing:
  assumes a: "map_of (df st) ''Age'' = Some (FloatCol ages)"
    and m: "''Billing Amount'' \<notin> set (columns (df st))"
  shows "clean_numerical_data st = Inl (KeyError ''Billing Amount'')"
proof -
  from m have n: "map_of (df st) ''Billing Amount'' = None" by (rule map_of_missing)
  show ?thesis
    by (simp add: clean_numerical_data_def get_col_def bind_result_def Let_def numeric_cells_def
          case_prod_beta a n map_of_set_col_other)
qed

lemma clean_numerical_data_room_missing:
  assumes a: "map_of (df st) ''Age'' = Some (FloatCol ages)"
    and b: "map_of (df st) ''Billing Amount'' = Some (FloatCol bills)"
    and m: "''Room Number'' \<notin> set (columns (df st))"
  shows "clean_numerical_data st = Inl (KeyError ''Room Number'')"
proof -
  from m have n: "map_of (df st) ''Room Number'' = None" by (rule map_of_missing)
  show ?thesis
    by (simp add: clean_numerical_data_def get_col_def bind_result_def Let_def numeric_cells_def
          case_prod_beta a b n map_of_set_col_other)
qed

lemma clean_categorical_data_admission_missing:
  assumes a: "''Medical Condition'' \<in> set (columns (df st))"
    and m: "''Admission Type'' \<notin> set (columns (df st))"
  shows "clean_categorical_data env st = Inl (KeyError ''Admission Type'')"
proof -
  from map_of_present [OF a] obtain c1 where k1: "map_of (df st) ''Medical Condition'' = Some c1" ..
  from m have n: "map_of (df st) ''Admission Type'' = None" by (rule map_of_missing)
  show ?thesis
    by (simp add: clean_categorical_data_def get_col_def bind_result_def k1 n)
qed

lemma clean_categorical_data_test_missing:
  assumes a: "''Medical Condition'' \<in> set (columns (df st))"
    and b: "''Admission Type'' \<in> set (columns (df st))"
    and m: "''Test Results'' \<notin> set (columns (df st))"
  shows "clean_categorical_data env st = Inl (KeyError ''Test Results'')"
proof -
  from map_of_present [OF a] obtain c1 where k1: "map_of (df st) ''Medical Condition'' = Some c1" ..
  from map_of_present [OF b] obtain c2 where k2: "map_of (df st) ''Admission Type'' = Some c2" ..
  from m have n: "map_of (df st) ''Test Results'' = None" by (rule map_of_missing)
  show ?thesis
    by (simp add: clean_categorical_data_def get_col_def bind_result_def k1 k2 n)
qed

lemma clean_categorical_data_insurance_missing:
  assumes a: "''Medical Condition'' \<in> set (columns (df st))"
    and b: "''Admission Type'' \<in> set (columns (df st))"
    and t: "''Test Results'' \<in> set (columns (df st))"
    and m: "''Insurance Provider'' \<notin> set (columns (df st))"
  shows "clean_categorical_data env st = Inl (KeyError ''Insurance Provider'')"
proof -
  from map_of_present [OF a] obtain c1 where k1: "map_of (df st) ''Medical Condition'' = Some c1" ..
  from map_of_present [OF b] obtain c2 where k2: "map_of (df st) ''Admission Type'' = Some c2" ..
  from map_of_present [OF t] obtain c3 where k3: "map_of (df st) ''Test Results'' = Some c3" ..
  from m have n: "map_of (df st) ''Insurance Provider'' = None" by (rule map_of_missing)
  show ?thesis
    by (simp add: clean_categorical_data_def get_col_def bind_result_def k1 k2 k3 n)
qed

lemma clean_categorical_data_medication_missing:
  assumes a: "''Medical Condition'' \<in> set (columns (df st))"
    and b: "''Admission Type'' \<in> set (columns (df st))"
    and t: "''Test Results'' \<in> set (columns (df st))"
    and i: "''Insurance Provider'' \<in> set (columns (df st))"
    and m: "''Medication'' \<notin> set (columns (df st))"
  shows "clean_categorical_data env st = Inl (KeyError ''Medication'')"
proof -
  from map_of_present [OF a] obtain c1 where k1: "map_of (df st) ''Medical Condition'' = Some c1" ..
  from map_of_present [OF b] obtain c2 where k2: "map_of (df st) ''Admission Type'' = Some c2" ..
  from map_of_present [OF t] obtain c3 where k3: "map_of (df st) ''Test Results'' = Some c3" ..
  from map_of_present [OF i] obtain c4 where k4: "map_of (df st) ''Insurance Provider'' = Some c4" ..
  from m have n: "map_of (df st) ''Medication'' = None" by (rule map_of_missing)
  show ?thesis
    by (simp add: clean_categorical_data_def get_col_def bind_result_def Let_def k1 k2 k3 k4 n
          map_of_set_col_other)
qed


text \<open>The imputation script checks before it reads: none of its steps ends with
  \<^verbatim>\<open>KeyError\<close>.\<close>

lemma no_key_error_Inr [simp]: "no_key_error (Inr x)"
  by (simp add: no_key_error_def)

lemma no_key_error_other [simp]:
  "no_key_error (Inl DtypeError)" "no_key_error (Inl ValueError)" "no_key_error (Inl OverflowError)"
  by (simp_all add: no_key_error_def)

lemma no_key_error_bind:
  assumes "no_key_error m" and "\<And>x. m = Inr x \<Longrightarrow> no_key_error (f x)"
  shows "no_key_error (bind_result m f)"
  using assms by (cases m) (auto simp: no_key_error_def bind_result_def)

lemma no_key_error_for_each:
  assumes "\<And>x st. no_key_error (body x st)"
  shows "no_key_error (for_each body xs st)"
proof (induction xs arbitrary: st)
  case Nil show ?case by simp
next
  case (Cons x xs)
  show ?case by (simp, rule no_key_error_bind) (rule assms, rule Cons.IH)
qed

lemma no_key_error_numeric_cells: "no_key_error (numeric_cells c)"
  by (simp add: numeric_cells_def split: column.splits)

lemma no_key_error_datetime_cells: "no_key_error (datetime_cells c)"
  by (simp add: datetime_cells_def split: column.splits)

lemma no_key_error_fill: "no_key_error (fill_median c)" "no_key_error (fill_mean c)"
  by (simp_all add: fill_median_def fill_mean_def split: column.splits)

lemma no_key_error_los_days: "no_key_error (los_days dis adm)"
  by (simp add: los_days_def)

lemma no_key_error_impute_low_column: "no_key_error (impute_low_column col st)"
  by (simp add: impute_low_column_def Let_def split: option.splits)

lemma no_key_error_impute_high_column: "no_key_error (impute_high_column env col st)"
  by (simp add: impute_high_column_def Let_def split: option.splits)

lemma no_key_error_impute_numerical_column: "no_key_error (impute_numerical_column col st)"
  by (auto simp: impute_numerical_column_def Let_def no_key_error_fill
           intro!: no_key_error_bind split: option.splits)

lemma no_key_error_impute_date_column: "no_key_error (impute_date_column col st)"
  by (simp add: impute_date_column_def Let_def split: option.splits)

lemma no_key_error_handle_gender_missing: "no_key_error (handle_gender_missing st)"
  by (simp add: handle_gender_missing_def Let_def split: option.splits)

lemma no_key_error_date_columns:
  assumes "''Date of Admission'' \<in> set (columns d)" and "''Discharge Date'' \<in> set (columns d)"
  shows "no_key_error (date_columns d)"
proof -
  from map_of_present [OF assms(1)] obtain a where a: "map_of d ''Date of Admission'' = Some a" ..
  from map_of_present [OF assms(2)] obtain b where b: "map_of d ''Discharge Date'' = Some b" ..
  show ?thesis
    unfolding date_columns_def
    by (simp add: get_col_def a b)
       (intro no_key_error_bind no_key_error_datetime_cells no_key_error_Inr)
qed

lemma no_key_error_verify_date_fix:
  assumes "''Date of Admission'' \<in> set (columns (df st))"
    and "''Discharge Date'' \<in> set (columns (df st))"
  shows "no_key_error (verify_date_fix st)"
  unfolding verify_date_fix_def
  by (intro no_key_error_bind no_key_error_date_columns assms)
     (auto simp: Let_def intro!: no_key_error_bind no_key_error_los_days)

lemma columns_swap_dates:
  "set (columns (swap_dates msk d dis adm)) =
     insert ''Discharge Date'' (insert ''Date of Admission'' (set (columns d)))"
  by (simp add: swap_dates_def Let_def columns_set_col)

lemma no_key_error_fix_date_logic_errors: "no_key_error (fix_date_logic_errors st)"
proof (cases "''Date of Admission'' \<in> set (columns (df st)) \<and> ''Discharge Date'' \<in> set (columns (df st))")
  case False
  thus ?thesis by (auto simp: fix_date_logic_errors_def)
next
  case True
  hence "fix_date_logic_errors st =
        bind_result (date_columns (df st)) (\<lambda>(dis, adm).
        bind_result (los_days dis adm) (\<lambda>los_initial.
          let negative_los = negative_mask los_initial;
              negative_count = count_true negative_los
          in if negative_count > 0
             then verify_date_fix
                    (st\<lparr>df := swap_dates negative_los (df st) dis adm,
                        strategies_applied := strategies_applied st @ [FixedDateLogic negative_count],
                        rows_affected := set_item (rows_affected st) ''Date_Logic_Fix'' negative_count,
                        console := console st @ [DateErrorsFound negative_count]\<rparr>)
             else Inr (st\<lparr>console := console st @ [NoDateErrors]\<rparr>)))"
    by (simp add: fix_date_logic_errors_def)
  also have "no_key_error \<dots>"
    using True
    by (intro no_key_error_bind no_key_error_date_columns)
       (auto simp: Let_def columns_swap_dates
             intro!: no_key_error_bind no_key_error_los_days no_key_error_verify_date_fix)
  finally show ?thesis .
qed

lemma no_key_error_feature_length_of_stay: "no_key_error (feature_length_of_stay st)"
proof (cases "''Date of Admission'' \<in> set (columns (df st)) \<and> ''Discharge Date'' \<in> set (columns (df st))")
  case False
  thus ?thesis by (auto simp: feature_length_of_stay_def)
next
  case True
  hence "no_key_error (bind_result (date_columns (df st)) (\<lambda>(dis, adm).
        bind_result (los_days dis adm) (\<lambda>los.
          Inr (add_strategy CreatedLengthOfStay
                 (st\<lparr>df := set_col (df st) ''Length_of_Stay''
                               (FloatCol (map (map_option real_of_int) los))\<rparr>)))))"
    by (intro no_key_error_bind no_key_error_date_columns)
       (auto intro!: no_key_error_bind no_key_error_los_days)
  with True show ?thesis by (simp add: feature_length_of_stay_def)
qed

lemma no_key_error_feature_age_group: "no_key_error (feature_age_group st)"
proof (cases "''Age'' \<in> set (columns (df st))")
  case False
  thus ?thesis by (simp add: feature_age_group_def)
next
  case True
  from map_of_present [OF True] obtain c where c: "map_of (df st) ''Age'' = Some c" ..
  have "no_key_error (bind_result (numeric_cells c) (\<lambda>ages.
          Inr (add_strategy CreatedAgeGroup
                 (st\<lparr>df := set_col (df st) ''Age_Group''
                               (ObjectCol (map (\<lambda>x. case x of None \<Rightarrow> None | Some v \<Rightarrow> cut_age v)
                                             ages))\<rparr>))))"
    by (rule no_key_error_bind [OF no_key_error_numeric_cells]) simp
  with True show ?thesis
    by (simp add: feature_age_group_def get_col_def c bind_result_def)
qed

lemma no_key_error_feature_billing_category: "no_key_error (feature_billing_category st)"
proof (cases "''Billing Amount'' \<in> set (columns (df st))")
  case False
  thus ?thesis by (simp add: feature_billing_category_def)
next
  case True
  from map_of_present [OF True] obtain c where c: "map_of (df st) ''Billing Amount'' = Some c" ..
  have "no_key_error (bind_result (numeric_cells c) (\<lambda>bills.
          case (quantile (1/4) bills, quantile (1/2) bills, quantile (3/4) bills) of
            (Some q25, Some q50, Some q75) \<Rightarrow>
              if 0 < q25 \<and> q25 < q50 \<and> q50 < q75
              then Inr (add_strategy CreatedBillingCategory
                          (st\<lparr>df := set_col (df st) ''Billing_Category''
                                        (ObjectCol (map (\<lambda>x. case x of None \<Rightarrow> None
                                                           | Some v \<Rightarrow> cut_billing q25 q50 q75 v)
                                                      bills))\<rparr>))
              else Inl ValueError
          | _ \<Rightarrow> Inl ValueError))"
    by (rule no_key_error_bind [OF no_key_error_numeric_cells])
       (simp split: option.splits)
  with True show ?thesis
    by (simp add: feature_billing_category_def get_col_def c bind_result_def)
qed

lemma no_key_error_generate_ml_ready_features: "no_key_error (generate_ml_ready_features st)"
  unfolding generate_ml_ready_features_def
  by (intro no_key_error_bind no_key_error_feature_length_of_stay no_key_error_feature_age_group
        no_key_error_feature_billing_category)

lemma no_key_error_run_ml_imputation_pipeline:
  "no_key_error (run_ml_imputation_pipeline env d)"
  unfolding run_ml_imputation_pipeline_def Let_def impute_categorical_low_missing_def
    impute_categorical_high_missing_def impute_numerical_data_def impute_date_data_def
  by (intro no_key_error_bind no_key_error_for_each no_key_error_impute_low_column
        no_key_error_impute_high_column no_key_error_impute_numerical_column
        no_key_error_impute_date_column no_key_error_handle_gender_missing
        no_key_error_fix_date_logic_errors no_key_error_generate_ml_ready_features
        no_key_error_Inr)
     (simp_all add: analyze_missing_patterns_def drop_pii_columns_def Let_def)


text \<open>
  Claim C9, as the specification states it: whenever a rule targets a column that is missing
  from the table, the pipeline stops with a fatal error, and no rule is skipped silently. The
  imputation pipeline runs to its end on a frame that has neither a Gender column, nor the two
  date columns, nor a Billing Amount: the rules for them are skipped and nothing is raised.
\<close>

theorem run_ml_imputation_pipeline_skips_counterexample:
  "run_ml_imputation_pipeline example_env age_only_example =
     Inr ((ml_load_data
             [(''Age'', FloatCol [Some 30, Some 40]),
              (''Age_Group'', ObjectCol [Some ''Young_Adult'', Some ''Adult''])])
            \<lparr>pii_columns := [''Name''], strategies_applied := [CreatedAgeGroup]\<rparr>,
          True)"
  by code_simp

text \<open>
  Claim C9, amended. The cleaning script reads fourteen columns. When one of them is missing
  from the table the run of the whole pipeline ends with an exception, and when that exception
  is a \<^verbatim>\<open>KeyError\<close> it names one of the fourteen that is missing; without a Name
  column it is \<^verbatim>\<open>KeyError('Name')\<close>. Rule by rule: the first column a rule reads, when
  missing, raises \<^verbatim>\<open>KeyError\<close> with the name of the column (the name of the rule is not
  part of the error); a later column of the same rule (Discharge Date; Billing Amount and Room
  Number; Admission Type, Test Results, Insurance Provider, Medication) raises
  \<^verbatim>\<open>KeyError\<close> with its own name when the columns read before it are there (and, for
  the three numbers, numeric); no missing column of the numeric rule is passed over. In the
  imputation script every rule first checks that its column is in the table and is skipped
  silently when it is not, the two date rules as soon as either date column is missing; the
  imputation pipeline never ends with \<^verbatim>\<open>KeyError\<close>.
\<close>

theorem missing_column_handling:
  "(\<forall>x \<in> set [''Name'', ''Gender'', ''Blood Type'', ''Date of Admission'', ''Discharge Date'',
               ''Hospital'', ''Age'', ''Billing Amount'', ''Room Number'', ''Medical Condition'',
               ''Admission Type'', ''Test Results'', ''Insurance Provider'', ''Medication''].
      x \<notin> set (columns d) \<longrightarrow> (\<exists>e. run_full_cleaning env d = Inl e)) \<and>
   (run_full_cleaning env d = Inl (KeyError c) \<longrightarrow>
      c \<in> set [''Name'', ''Gender'', ''Blood Type'', ''Date of Admission'', ''Discharge Date'',
                ''Hospital'', ''Age'', ''Billing Amount'', ''Room Number'', ''Medical Condition'',
                ''Admission Type'', ''Test Results'', ''Insurance Provider'', ''Medication''] \<and>
      c \<notin> set (columns d)) \<and>
   (''Name'' \<notin> set (columns d) \<longrightarrow> run_full_cleaning env d = Inl (KeyError ''Name'')) \<and>
   (''Name'' \<notin> set (columns (df cst)) \<longrightarrow> clean_names cst = Inl (KeyError ''Name'')) \<and>
   (''Gender'' \<notin> set (columns (df cst)) \<longrightarrow> clean_gender_data cst = Inl (KeyError ''Gender'')) \<and>
   (''Blood Type'' \<notin> set (columns (df cst)) \<longrightarrow>
      clean_blood_types cst = Inl (KeyError ''Blood Type'')) \<and>
   (''Date of Admission'' \<notin> set (columns (df cst)) \<longrightarrow>
      clean_dates env cst = Inl (KeyError ''Date of Admission'')) \<and>
   (''Date of Admission'' \<in> set (columns (df cst)) \<and> ''Discharge Date'' \<notin> set (columns (df cst)) \<longrightarrow>
      clean_dates env cst = Inl (KeyError ''Discharge Date'')) \<and>
   (''Hospital'' \<notin> set (columns (df cst)) \<longrightarrow>
      clean_hospital_names cst = Inl (KeyError ''Hospital'')) \<and>
   (''Age'' \<notin> set (columns (df cst)) \<longrightarrow> clean_numerical_data cst = Inl (KeyError ''Age'')) \<and>
   (map_of (df cst) ''Age'' = Some (FloatCol ages) \<and> ''Billing Amount'' \<notin> set (columns (df cst)) \<longrightarrow>
      clean_numerical_data cst = Inl (KeyError ''Billing Amount'')) \<and>
   (map_of (df cst) ''Age'' = Some (FloatCol ages) \<and>
    map_of (df cst) ''Billing Amount'' = Some (FloatCol bills) \<and>
    ''Room Number'' \<notin> set (columns (df cst)) \<longrightarrow>
      clean_numerical_data cst = Inl (KeyError ''Room Number'')) \<and>
   (\<forall>x \<in> set [''Age'', ''Billing Amount'', ''Room Number''].
      x \<notin> set (columns (df cst)) \<longrightarrow> (\<exists>e. clean_numerical_data cst = Inl e)) \<and>
   (clean_numerical_data cst = Inl (KeyError c) \<longrightarrow>
      c \<in> set [''Age'', ''Billing Amount'', ''Room Number''] \<and> c \<notin> set (columns (df cst))) \<and>
   (''Medical Condition'' \<notin> set (columns (df cst)) \<longrightarrow>
      clean_categorical_data env cst = Inl (KeyError ''Medical Condition'')) \<and>
   (''Medical Condition'' \<in> set (columns (df cst)) \<and>
    ''Admission Type'' \<notin> set (columns (df cst)) \<longrightarrow>
      clean_categorical_data env cst = Inl (KeyError ''Admission Type'')) \<and>
   (''Medical Condition'' \<in> set (columns (df cst)) \<and>
    ''Admission Type'' \<in> set (columns (df cst)) \<and>
    ''Test Results'' \<notin> set (columns (df cst)) \<longrightarrow>
      clean_categorical_data env cst = Inl (KeyError ''Test Results'')) \<and>
   (''Medical Condition'' \<in> set (columns (df cst)) \<and>
    ''Admission Type'' \<in> set (columns (df cst)) \<and>
    ''Test Results'' \<in> set (columns (df cst)) \<and>
    ''Insurance Provider'' \<notin> set (columns (df cst)) \<longrightarrow>
      clean_categorical_data env cst = Inl (KeyError ''Insurance Provider'')) \<and>
   (''Medical Condition'' \<in> set (columns (df cst)) \<and>
    ''Admission Type'' \<in> set (columns (df cst)) \<and>
    ''Test Results'' \<in> set (columns (df cst)) \<and>
    ''Insurance Provider'' \<in> set (columns (df cst)) \<and>
    ''Medication'' \<notin> set (columns (df cst)) \<longrightarrow>
      clean_categorical_data env cst = Inl (KeyError ''Medication'')) \<and>
   (col \<notin> set (columns (df hst)) \<longrightarrow>
      impute_low_column col hst = Inr hst \<and> impute_high_column env col hst = Inr hst \<and>
      impute_numerical_column col hst = Inr hst \<and> impute_date_column col hst = Inr hst) \<and>
   (''Gender'' \<notin> set (columns (df hst)) \<longrightarrow> handle_gender_missing hst = Inr hst) \<and>
   (''Date of Admission'' \<notin> set (columns (df hst)) \<or> ''Discharge Date'' \<notin> set (columns (df hst)) \<longrightarrow>
      fix_date_logic_errors hst = Inr hst \<and> feature_length_of_stay hst = Inr hst) \<and>
   (''Age'' \<notin> set (columns (df hst)) \<longrightarrow> feature_age_group hst = Inr hst) \<and>
   (''Billing Amount'' \<notin> set (columns (df hst)) \<longrightarrow> feature_billing_category hst = Inr hst) \<and>
   run_ml_imputation_pipeline env d \<noteq> Inl (KeyError c)"
proof -
  note full = run_full_cleaning_reads [of env d]
  have a1: "\<forall>x \<in> set [''Name'', ''Gender'', ''Blood Type'', ''Date of Admission'', ''Discharge Date'',
               ''Hospital'', ''Age'', ''Billing Amount'', ''Room Number'', ''Medical Condition'',
               ''Admission Type'', ''Test Results'', ''Insurance Provider'', ''Medication''].
      x \<notin> set (columns d) \<longrightarrow> (\<exists>e. run_full_cleaning env d = Inl e)"
  proof (intro ballI impI)
    fix x
    assume x: "x \<in> set [''Name'', ''Gender'', ''Blood Type'', ''Date of Admission'', ''Discharge Date'',
               ''Hospital'', ''Age'', ''Billing Amount'', ''Room Number'', ''Medical Condition'',
               ''Admission Type'', ''Test Results'', ''Insurance Provider'', ''Medication'']"
      and n: "x \<notin> set (columns d)"
    show "\<exists>e. run_full_cleaning env d = Inl e"
    proof (cases "run_full_cleaning env d")
      case (Inl e) thus ?thesis by simp
    next
      case (Inr st')
      with full [THEN conjunct1, rule_format, OF Inr] x n show ?thesis by blast
    qed
  qed
  have a2: "run_full_cleaning env d = Inl (KeyError c) \<longrightarrow>
      c \<in> set [''Name'', ''Gender'', ''Blood Type'', ''Date of Admission'', ''Discharge Date'',
                ''Hospital'', ''Age'', ''Billing Amount'', ''Room Number'', ''Medical Condition'',
                ''Admission Type'', ''Test Results'', ''Insurance Provider'', ''Medication''] \<and>
      c \<notin> set (columns d)"
    using full [THEN conjunct2, rule_format, of c] by (rule impI)
  have a3: "''Name'' \<notin> set (columns d) \<longrightarrow> run_full_cleaning env d = Inl (KeyError ''Name'')"
  proof
    assume n: "''Name'' \<notin> set (columns d)"
    from remove_duplicates_columns [of "load_data d"] obtain st' where
      r: "remove_duplicates (load_data d) = Inr st'" "columns (df st') = columns d"
      by (auto simp: load_data_def)
    from n r(2) have "clean_names st' = Inl (KeyError ''Name'')"
      by (simp add: clean_names_def get_col_missing bind_result_def)
    with r(1) show "run_full_cleaning env d = Inl (KeyError ''Name'')"
      by (simp add: run_full_cleaning_def bind_result_def)
  qed
  have b1: "''Name'' \<notin> set (columns (df cst)) \<longrightarrow> clean_names cst = Inl (KeyError ''Name'')"
    by (simp add: clean_names_def get_col_missing bind_result_def)
  have b2: "''Gender'' \<notin> set (columns (df cst)) \<longrightarrow> clean_gender_data cst = Inl (KeyError ''Gender'')"
    by (simp add: clean_gender_data_def get_col_missing bind_result_def)
  have b3: "''Blood Type'' \<notin> set (columns (df cst)) \<longrightarrow>
      clean_blood_types cst = Inl (KeyError ''Blood Type'')"
    by (simp add: clean_blood_types_def get_col_missing bind_result_def)
  have b4: "''Date of Admission'' \<notin> set (columns (df cst)) \<longrightarrow>
      clean_dates env cst = Inl (KeyError ''Date of Admission'')"
    by (simp add: clean_dates_def convert_date_column_def get_col_missing bind_result_def)
  have b5: "''Date of Admission'' \<in> set (columns (df cst)) \<and> ''Discharge Date'' \<notin> set (columns (df cst)) \<longrightarrow>
      clean_dates env cst = Inl (KeyError ''Discharge Date'')"
    using clean_dates_discharge_missing [of cst env] by (intro impI) (elim conjE)
  have b6: "''Hospital'' \<notin> set (columns (df cst)) \<longrightarrow>
      clean_hospital_names cst = Inl (KeyError ''Hospital'')"
    by (simp add: clean_hospital_names_def get_col_missing bind_result_def)
  have n1: "''Age'' \<notin> set (columns (df cst)) \<longrightarrow> clean_numerical_data cst = Inl (KeyError ''Age'')"
    by (simp add: clean_numerical_data_def get_col_missing bind_result_def)
  have n2: "map_of (df cst) ''Age'' = Some (FloatCol ages) \<and> ''Billing Amount'' \<notin> set (columns (df cst)) \<longrightarrow>
      clean_numerical_data cst = Inl (KeyError ''Billing Amount'')"
    using clean_numerical_data_billing_missing [of cst ages] by (intro impI) (elim conjE)
  have n3: "map_of (df cst) ''Age'' = Some (FloatCol ages) \<and>
    map_of (df cst) ''Billing Amount'' = Some (FloatCol bills) \<and>
    ''Room Number'' \<notin> set (columns (df cst)) \<longrightarrow>
      clean_numerical_data cst = Inl (KeyError ''Room Number'')"
    using clean_numerical_data_room_missing [of cst ages bills] by (intro impI) (elim conjE)
  have n4: "\<forall>x \<in> set [''Age'', ''Billing Amount'', ''Room Number''].
      x \<notin> set (columns (df cst)) \<longrightarrow> (\<exists>e. clean_numerical_data cst = Inl e)"
    using reads_ok_missing [OF reads_ok_clean_numerical_data, of _ cst] by (intro ballI impI)
  have n5: "clean_numerical_data cst = Inl (KeyError c) \<longrightarrow>
      c \<in> set [''Age'', ''Billing Amount'', ''Room Number''] \<and> c \<notin> set (columns (df cst))"
    using reads_ok_key [OF reads_ok_clean_numerical_data, of cst c] by (rule impI)
  have c1: "''Medical Condition'' \<notin> set (columns (df cst)) \<longrightarrow>
      clean_categorical_data env cst = Inl (KeyError ''Medical Condition'')"
    by (simp add: clean_categorical_data_def get_col_missing bind_result_def)
  have c2: "''Medical Condition'' \<in> set (columns (df cst)) \<and>
    ''Admission Type'' \<notin> set (columns (df cst)) \<longrightarrow>
      clean_categorical_data env cst = Inl (KeyError ''Admission Type'')"
    using clean_categorical_data_admission_missing [of cst env] by (intro impI) (elim conjE)
  have c3: "''Medical Condition'' \<in> set (columns (df cst)) \<and>
    ''Admission Type'' \<in> set (columns (df cst)) \<and>
    ''Test Results'' \<notin> set (columns (df cst)) \<longrightarrow>
      clean_categorical_data env cst = Inl (KeyError ''Test Results'')"
    using clean_categorical_data_test_missing [of cst env] by (intro impI) (elim conjE)
  have c4: "''Medical Condition'' \<in> set (columns (df cst)) \<and>
    ''Admission Type'' \<in> set (columns (df cst)) \<and>
    ''Test Results'' \<in> set (columns (df cst)) \<and>
    ''Insurance Provider'' \<notin> set (columns (df cst)) \<longrightarrow>
      clean_categorical_data env cst = Inl (KeyError ''Insurance Provider'')"
    using clean_categorical_data_insurance_missing [of cst env] by (intro impI) (elim conjE)
  have c5: "''Medical Condition'' \<in> set (columns (df cst)) \<and>
    ''Admission Type'' \<in> set (columns (df cst)) \<and>
    ''Test Results'' \<in> set (columns (df cst)) \<and>
    ''Insurance Provider'' \<in> set (columns (df cst)) \<and>
    ''Medication'' \<notin> set (columns (df cst)) \<longrightarrow>
      clean_categorical_data env cst = Inl (KeyError ''Medication'')"
    using clean_categorical_data_medication_missing [of cst env] by (intro impI) (elim conjE)
  have m1: "col \<notin> set (columns (df hst)) \<longrightarrow>
      impute_low_column col hst = Inr hst \<and> impute_high_column env col hst = Inr hst \<and>
      impute_numerical_column col hst = Inr hst \<and> impute_date_column col hst = Inr hst"
    by (simp add: impute_low_column_def impute_high_column_def impute_numerical_column_def
          impute_date_column_def map_of_missing)
  have m2: "''Gender'' \<notin> set (columns (df hst)) \<longrightarrow> handle_gender_missing hst = Inr hst"
    by (simp add: handle_gender_missing_def map_of_missing)
  have m3: "''Date of Admission'' \<notin> set (columns (df hst)) \<or> ''Discharge Date'' \<notin> set (columns (df hst)) \<longrightarrow>
      fix_date_logic_errors hst = Inr hst \<and> feature_length_of_stay hst = Inr hst"
    by (auto simp: fix_date_logic_errors_def feature_length_of_stay_def)
  have m4: "''Age'' \<notin> set (columns (df hst)) \<longrightarrow> feature_age_group hst = Inr hst"
    by (simp add: feature_age_group_def)
  have m5: "''Billing Amount'' \<notin> set (columns (df hst)) \<longrightarrow> feature_billing_category hst = Inr hst"
    by (simp add: feature_billing_category_def)
  have m6: "run_ml_imputation_pipeline env d \<noteq> Inl (KeyError c)"
    using no_key_error_run_ml_imputation_pipeline [of env d] by (simp add: no_key_error_def)
  show ?thesis
    by (intro conjI a1 a2 a3 b1 b2 b3 b4 b5 b6 n1 n2 n3 n4 n5 c1 c2 c3 c4 c5 m1 m2 m3 m4 m5 m6)
qed


text \<open>The theorem at three frames: one that has none of the columns the rules look for, one
  with the ages only, one with the admission dates only.\<close>

theorem missing_column_handling_witness:
  "''Name'' \<notin> set (columns notes_example) \<and>
   ''Gender'' \<notin> set (columns (df (load_data notes_example))) \<and>
   ''Age'' \<notin> set (columns (df (ml_load_data notes_example))) \<and>
   run_full_cleaning example_env notes_example = Inl (KeyError ''Name'') \<and>
   clean_gender_data (load_data notes_example) = Inl (KeyError ''Gender'') \<and>
   clean_numerical_data (load_data notes_example) = Inl (KeyError ''Age'') \<and>
   map_of (df (load_data age_only_example)) ''Age'' = Some (FloatCol [Some 30, Some 40]) \<and>
   ''Billing Amount'' \<notin> set (columns (df (load_data age_only_example))) \<and>
   clean_numerical_data (load_data age_only_example) = Inl (KeyError ''Billing Amount'') \<and>
   ''Date of Admission'' \<in> set (columns (df (load_data admission_only_example))) \<and>
   ''Discharge Date'' \<notin> set (columns (df (load_data admission_only_example))) \<and>
   clean_dates example_env (load_data admission_only_example) = Inl (KeyError ''Discharge Date'') \<and>
   impute_low_column ''Gender'' (ml_load_data notes_example) = Inr (ml_load_data notes_example) \<and>
   handle_gender_missing (ml_load_data notes_example) = Inr (ml_load_data notes_example) \<and>
   fix_date_logic_errors (ml_load_data admission_only_example) =
     Inr (ml_load_data admission_only_example) \<and>
   feature_length_of_stay (ml_load_data admission_only_example) =
     Inr (ml_load_data admission_only_example) \<and>
   feature_age_group (ml_load_data notes_example) = Inr (ml_load_data notes_example) \<and>
   run_ml_imputation_pipeline example_env notes_example \<noteq> Inl (KeyError ''Name'')"
proof -
  have c: "columns notes_example = [''Notes'']"
    "columns (df (load_data notes_example)) = [''Notes'']"
    "columns (df (ml_load_data notes_example)) = [''Notes'']"
    "columns (df (load_data age_only_example)) = [''Age'']"
    "columns (df (load_data admission_only_example)) = [''Date of Admission'']"
    "columns (df (ml_load_data admission_only_example)) = [''Date of Admission'']"
    "map_of (df (load_data age_only_example)) ''Age'' = Some (FloatCol [Some 30, Some 40])"
    by (simp_all add: notes_example_def age_only_example_def admission_only_example_def
          columns_def load_data_def ml_load_data_def)
  note full = missing_column_handling [where d = notes_example and env = example_env
      and cst = "load_data notes_example" and col = "''Gender''" and c = "''Name''"
      and hst = "ml_load_data notes_example"]
  note age = missing_column_handling [where cst = "load_data age_only_example"
      and ages = "[Some 30, Some 40]"]
  note adm = missing_column_handling [where env = example_env
      and cst = "load_data admission_only_example"
      and hst = "ml_load_data admission_only_example"]
  note rest = conjunct2
  note rest5 = rest [THEN rest, THEN rest, THEN rest, THEN rest]
  show ?thesis
    using full [THEN rest, THEN rest, THEN conjunct1]
      full [THEN rest, THEN rest, THEN rest, THEN rest, THEN conjunct1]
      full [THEN rest5, THEN rest, THEN rest, THEN rest, THEN rest, THEN conjunct1]
      age [THEN rest5, THEN rest5, THEN conjunct1]
      adm [THEN rest5, THEN rest, THEN rest, THEN conjunct1]
      full [THEN rest5, THEN rest5, THEN rest5, THEN rest, THEN rest, THEN rest, THEN rest,
        THEN conjunct1]
      full [THEN rest5, THEN rest5, THEN rest5, THEN rest5, THEN conjunct1]
      adm [THEN rest5, THEN rest5, THEN rest5, THEN rest5, THEN rest, THEN conjunct1]
      full [THEN rest5, THEN rest5, THEN rest5, THEN rest5, THEN rest, THEN rest, THEN conjunct1]
      full [THEN rest5, THEN rest5, THEN rest5, THEN rest5, THEN rest, THEN rest, THEN rest,
        THEN rest]
    by (simp add: c)
qed

end
